theory Spec2Isabelle
  imports Complex_Main "HOL-Library.Word" "HOL-Library.Monad_Syntax"
begin

unbundle bit_operations_syntax

section \<open>Scalars\<close>

text \<open>
  The gizmo computes with C++ \<^verbatim>\<open>float\<close> and the GLM vector library. Here a
  \<^verbatim>\<open>float\<close> is a real number: arithmetic is exact and no rounding, overflow or
  underflow takes place. Decimal constants of the source (\<^verbatim>\<open>0.001f\<close>, \<^verbatim>\<open>0.5f\<close>)
  are the rational numbers they denote.

  Where the machine leaves the finite numbers, the model has no value. A division
  by zero gives an infinity or a NaN on the machine, and the program goes on
  computing with it; \<open>float_div\<close> gives \<open>None\<close>, and so does every function that
  depends on the quotient. A division whose divisor the source has compared with
  \<^verbatim>\<open>kEpsilon\<close> before (\<^verbatim>\<open>IntersectRayPlane\<close>, \<^verbatim>\<open>CalculateSnap\<close>, the perspective
  divide of \<^verbatim>\<open>GetSegmentLengthClipSpace\<close>) cannot be one by zero and is written \<open>/\<close>.
\<close>

type_synonym float = real

definition float_div :: "float \<Rightarrow> float \<Rightarrow> float option" where
  "float_div a b = (if b = 0 then None else Some (a / b))"

text \<open>
  \<^verbatim>\<open>glm::inversesqrt(a)\<close> is \<^verbatim>\<open>1 / sqrt(a)\<close>: an infinity at \<open>0\<close> and a NaN below.
\<close>

definition inversesqrt :: "float \<Rightarrow> float option" where
  "inversesqrt a = (if a \<le> 0 then None else Some (1 / sqrt a))"

text \<open>\<^verbatim>\<open>kEpsilon = glm::epsilon<float>()\<close>, the machine epsilon of a 32-bit float.\<close>

definition kEpsilon :: float where
  "kEpsilon = 1 / 2 ^ 23"

text \<open>
  \<^verbatim>\<open>glm::fmod(a, b)\<close> is \<^verbatim>\<open>a - b * trunc(a / b)\<close>; \<^verbatim>\<open>trunc\<close> rounds towards zero.
  Its one caller, \<^verbatim>\<open>CalculateSnap\<close>, passes a \<open>b\<close> above \<^verbatim>\<open>kEpsilon\<close>.
\<close>

definition glm_trunc :: "float \<Rightarrow> int" where
  "glm_trunc q = (if 0 \<le> q then \<lfloor>q\<rfloor> else \<lceil>q\<rceil>)"

definition glm_fmod :: "float \<Rightarrow> float \<Rightarrow> float" where
  "glm_fmod a b = a - b * of_int (glm_trunc (a / b))"

definition glm_clamp :: "float \<Rightarrow> float \<Rightarrow> float \<Rightarrow> float" where
  "glm_clamp a lo hi = min (max a lo) hi"

definition glm_radians :: "float \<Rightarrow> float" where
  "glm_radians d = d * (pi / 180)"

section \<open>Vectors and matrices\<close>

datatype vec2 = Vec2 (x2: float) (y2: float)
datatype vec3 = Vec3 (x3: float) (y3: float) (z3: float)
datatype vec4 = Vec4 (x4: float) (y4: float) (z4: float) (w4: float)

text \<open>A \<^verbatim>\<open>glm::mat4\<close> is stored by columns: \<^verbatim>\<open>m[i]\<close> is column \<open>i\<close>.\<close>

datatype mat4 = Mat4 (col0: vec4) (col1: vec4) (col2: vec4) (col3: vec4)

text \<open>Indexing. An index out of range is undefined behaviour in the source.\<close>

definition vec3_get :: "vec3 \<Rightarrow> int \<Rightarrow> float" where
  "vec3_get v i =
     (if i = 0 then x3 v else if i = 1 then y3 v else if i = 2 then z3 v else undefined)"

definition vec3_set :: "vec3 \<Rightarrow> int \<Rightarrow> float \<Rightarrow> vec3" where
  "vec3_set v i a =
     (if i = 0 then Vec3 a (y3 v) (z3 v)
      else if i = 1 then Vec3 (x3 v) a (z3 v)
      else if i = 2 then Vec3 (x3 v) (y3 v) a
      else undefined)"

definition vec4_get :: "vec4 \<Rightarrow> int \<Rightarrow> float" where
  "vec4_get v i =
     (if i = 0 then x4 v else if i = 1 then y4 v else if i = 2 then z4 v
      else if i = 3 then w4 v else undefined)"

definition vec4_set :: "vec4 \<Rightarrow> int \<Rightarrow> float \<Rightarrow> vec4" where
  "vec4_set v i a =
     (if i = 0 then Vec4 a (y4 v) (z4 v) (w4 v)
      else if i = 1 then Vec4 (x4 v) a (z4 v) (w4 v)
      else if i = 2 then Vec4 (x4 v) (y4 v) a (w4 v)
      else if i = 3 then Vec4 (x4 v) (y4 v) (z4 v) a
      else undefined)"

definition mat4_col :: "mat4 \<Rightarrow> int \<Rightarrow> vec4" where
  "mat4_col m i =
     (if i = 0 then col0 m else if i = 1 then col1 m else if i = 2 then col2 m
      else if i = 3 then col3 m else undefined)"

definition mat4_set_col :: "mat4 \<Rightarrow> int \<Rightarrow> vec4 \<Rightarrow> mat4" where
  "mat4_set_col m i c =
     (if i = 0 then Mat4 c (col1 m) (col2 m) (col3 m)
      else if i = 1 then Mat4 (col0 m) c (col2 m) (col3 m)
      else if i = 2 then Mat4 (col0 m) (col1 m) c (col3 m)
      else if i = 3 then Mat4 (col0 m) (col1 m) (col2 m) c
      else undefined)"

text \<open>Conversions between vector sizes: \<^verbatim>\<open>v.xyz()\<close>, \<^verbatim>\<open>glm::vec4{ v, w }\<close>.\<close>

definition xyz :: "vec4 \<Rightarrow> vec3" where
  "xyz v = Vec3 (x4 v) (y4 v) (z4 v)"

definition xy :: "vec4 \<Rightarrow> vec2" where
  "xy v = Vec2 (x4 v) (y4 v)"

definition vec4_of :: "vec3 \<Rightarrow> float \<Rightarrow> vec4" where
  "vec4_of v w = Vec4 (x3 v) (y3 v) (z3 v) w"

definition vec4_of2 :: "vec2 \<Rightarrow> float \<Rightarrow> float \<Rightarrow> vec4" where
  "vec4_of2 v z w = Vec4 (x2 v) (y2 v) z w"

definition vec3_splat :: "float \<Rightarrow> vec3" where
  "vec3_splat a = Vec3 a a a"

text \<open>Componentwise arithmetic.\<close>

definition vec2_add :: "vec2 \<Rightarrow> vec2 \<Rightarrow> vec2" where
  "vec2_add a b = Vec2 (x2 a + x2 b) (y2 a + y2 b)"

definition vec2_sub :: "vec2 \<Rightarrow> vec2 \<Rightarrow> vec2" where
  "vec2_sub a b = Vec2 (x2 a - x2 b) (y2 a - y2 b)"

definition vec2_div :: "vec2 \<Rightarrow> vec2 \<Rightarrow> vec2 option" where
  "vec2_div a b =
     do { x \<leftarrow> float_div (x2 a) (x2 b);
          y \<leftarrow> float_div (y2 a) (y2 b);
          Some (Vec2 x y) }"

definition length2 :: "vec2 \<Rightarrow> float" where
  "length2 a = sqrt (x2 a * x2 a + y2 a * y2 a)"

definition vec3_add :: "vec3 \<Rightarrow> vec3 \<Rightarrow> vec3" where
  "vec3_add a b = Vec3 (x3 a + x3 b) (y3 a + y3 b) (z3 a + z3 b)"

definition vec3_sub :: "vec3 \<Rightarrow> vec3 \<Rightarrow> vec3" where
  "vec3_sub a b = Vec3 (x3 a - x3 b) (y3 a - y3 b) (z3 a - z3 b)"

definition vec3_neg :: "vec3 \<Rightarrow> vec3" where
  "vec3_neg a = Vec3 (- x3 a) (- y3 a) (- z3 a)"

definition vec3_mul :: "vec3 \<Rightarrow> float \<Rightarrow> vec3" where
  "vec3_mul a s = Vec3 (x3 a * s) (y3 a * s) (z3 a * s)"

definition vec3_cmul :: "vec3 \<Rightarrow> vec3 \<Rightarrow> vec3" where
  "vec3_cmul a b = Vec3 (x3 a * x3 b) (y3 a * y3 b) (z3 a * z3 b)"

definition dot3 :: "vec3 \<Rightarrow> vec3 \<Rightarrow> float" where
  "dot3 a b = x3 a * x3 b + y3 a * y3 b + z3 a * z3 b"

definition length3 :: "vec3 \<Rightarrow> float" where
  "length3 a = sqrt (dot3 a a)"

definition cross :: "vec3 \<Rightarrow> vec3 \<Rightarrow> vec3" where
  "cross a b =
     Vec3 (y3 a * z3 b - y3 b * z3 a) (z3 a * x3 b - z3 b * x3 a) (x3 a * y3 b - x3 b * y3 a)"

definition vec4_add :: "vec4 \<Rightarrow> vec4 \<Rightarrow> vec4" where
  "vec4_add a b = Vec4 (x4 a + x4 b) (y4 a + y4 b) (z4 a + z4 b) (w4 a + w4 b)"

definition vec4_sub :: "vec4 \<Rightarrow> vec4 \<Rightarrow> vec4" where
  "vec4_sub a b = Vec4 (x4 a - x4 b) (y4 a - y4 b) (z4 a - z4 b) (w4 a - w4 b)"

definition vec4_mul :: "vec4 \<Rightarrow> float \<Rightarrow> vec4" where
  "vec4_mul a s = Vec4 (x4 a * s) (y4 a * s) (z4 a * s) (w4 a * s)"

definition dot4 :: "vec4 \<Rightarrow> vec4 \<Rightarrow> float" where
  "dot4 a b = x4 a * x4 b + y4 a * y4 b + z4 a * z4 b + w4 a * w4 b"

definition length4 :: "vec4 \<Rightarrow> float" where
  "length4 a = sqrt (dot4 a a)"

text \<open>
  \<^verbatim>\<open>glm::normalize(v)\<close> is \<^verbatim>\<open>v * inversesqrt(dot(v, v))\<close>. For the zero vector the
  machine multiplies \<open>0\<close> by an infinity and every component is a NaN.
\<close>

definition normalize3 :: "vec3 \<Rightarrow> vec3 option" where
  "normalize3 a = do { r \<leftarrow> inversesqrt (dot3 a a); Some (vec3_mul a r) }"

definition normalize4 :: "vec4 \<Rightarrow> vec4 option" where
  "normalize4 a = do { r \<leftarrow> inversesqrt (dot4 a a); Some (vec4_mul a r) }"

text \<open>Matrix times vector, matrix times matrix, and the matrix constructors of GLM.\<close>

definition mat4_mul_vec :: "mat4 \<Rightarrow> vec4 \<Rightarrow> vec4" where
  "mat4_mul_vec m v =
     vec4_add (vec4_add (vec4_mul (col0 m) (x4 v)) (vec4_mul (col1 m) (y4 v)))
              (vec4_add (vec4_mul (col2 m) (z4 v)) (vec4_mul (col3 m) (w4 v)))"

definition mat4_mul :: "mat4 \<Rightarrow> mat4 \<Rightarrow> mat4" where
  "mat4_mul a b =
     Mat4 (mat4_mul_vec a (col0 b)) (mat4_mul_vec a (col1 b))
          (mat4_mul_vec a (col2 b)) (mat4_mul_vec a (col3 b))"

definition mat4_smul :: "mat4 \<Rightarrow> float \<Rightarrow> mat4" where
  "mat4_smul m s =
     Mat4 (vec4_mul (col0 m) s) (vec4_mul (col1 m) s) (vec4_mul (col2 m) s) (vec4_mul (col3 m) s)"

definition mat4_identity :: mat4 where
  "mat4_identity = Mat4 (Vec4 1 0 0 0) (Vec4 0 1 0 0) (Vec4 0 0 1 0) (Vec4 0 0 0 1)"

definition glm_translate :: "vec3 \<Rightarrow> mat4" where
  "glm_translate v =
     Mat4 (Vec4 1 0 0 0) (Vec4 0 1 0 0) (Vec4 0 0 1 0) (Vec4 (x3 v) (y3 v) (z3 v) 1)"

definition glm_scale :: "vec3 \<Rightarrow> mat4" where
  "glm_scale v =
     Mat4 (Vec4 (x3 v) 0 0 0) (Vec4 0 (y3 v) 0 0) (Vec4 0 0 (z3 v) 0) (Vec4 0 0 0 1)"

text \<open>
  \<^verbatim>\<open>glm::rotate(angle, v)\<close> normalizes \<open>v\<close> and builds the rotation by \<open>angle\<close> radians
  about it; \<open>rotation_about\<close> is the matrix it builds from the normalized axis.
\<close>

definition rotation_about :: "float \<Rightarrow> vec3 \<Rightarrow> mat4" where
  "rotation_about angle axis =
     (let c = cos angle; s = sin angle;
          temp = vec3_mul axis (1 - c)
      in Mat4
           (Vec4 (c + x3 temp * x3 axis)
                 (x3 temp * y3 axis + s * z3 axis)
                 (x3 temp * z3 axis - s * y3 axis) 0)
           (Vec4 (y3 temp * x3 axis - s * z3 axis)
                 (c + y3 temp * y3 axis)
                 (y3 temp * z3 axis + s * x3 axis) 0)
           (Vec4 (z3 temp * x3 axis + s * y3 axis)
                 (z3 temp * y3 axis - s * x3 axis)
                 (c + z3 temp * z3 axis) 0)
           (Vec4 0 0 0 1))"

definition glm_rotate :: "float \<Rightarrow> vec3 \<Rightarrow> mat4 option" where
  "glm_rotate angle v = do { axis \<leftarrow> normalize3 v; Some (rotation_about angle axis) }"

text \<open>
  \<^verbatim>\<open>glm::inverse\<close> of a 4x4 matrix, as GLM computes it: the 2x2 sub-determinants
  \<^verbatim>\<open>Coef00\<close> ... \<^verbatim>\<open>Coef23\<close> of the last three columns, the signed cofactor
  columns \<^verbatim>\<open>Inv0\<close> ... \<^verbatim>\<open>Inv3\<close>, and the determinant as the product of the
  first column with the first row of the cofactors. \<open>Coef a b c d\<close> is
  \<^verbatim>\<open>a * d - c * b\<close>. The cofactors are multiplied by \<^verbatim>\<open>1 / Determinant\<close>, which is
  a division by zero for a singular matrix.
\<close>

definition Coef :: "float \<Rightarrow> float \<Rightarrow> float \<Rightarrow> float \<Rightarrow> float" where
  "Coef a b c d = a * d - c * b"

fun glm_cofactors :: "mat4 \<Rightarrow> mat4" where
  "glm_cofactors (Mat4 (Vec4 m00 m01 m02 m03) (Vec4 m10 m11 m12 m13)
                       (Vec4 m20 m21 m22 m23) (Vec4 m30 m31 m32 m33)) =
     Mat4
       (Vec4 (m11 * Coef m22 m23 m32 m33 - m12 * Coef m21 m23 m31 m33 + m13 * Coef m21 m22 m31 m32)
             (- (m01 * Coef m22 m23 m32 m33 - m02 * Coef m21 m23 m31 m33 + m03 * Coef m21 m22 m31 m32))
             (m01 * Coef m12 m13 m32 m33 - m02 * Coef m11 m13 m31 m33 + m03 * Coef m11 m12 m31 m32)
             (- (m01 * Coef m12 m13 m22 m23 - m02 * Coef m11 m13 m21 m23 + m03 * Coef m11 m12 m21 m22)))
       (Vec4 (- (m10 * Coef m22 m23 m32 m33 - m12 * Coef m20 m23 m30 m33 + m13 * Coef m20 m22 m30 m32))
             (m00 * Coef m22 m23 m32 m33 - m02 * Coef m20 m23 m30 m33 + m03 * Coef m20 m22 m30 m32)
             (- (m00 * Coef m12 m13 m32 m33 - m02 * Coef m10 m13 m30 m33 + m03 * Coef m10 m12 m30 m32))
             (m00 * Coef m12 m13 m22 m23 - m02 * Coef m10 m13 m20 m23 + m03 * Coef m10 m12 m20 m22))
       (Vec4 (m10 * Coef m21 m23 m31 m33 - m11 * Coef m20 m23 m30 m33 + m13 * Coef m20 m21 m30 m31)
             (- (m00 * Coef m21 m23 m31 m33 - m01 * Coef m20 m23 m30 m33 + m03 * Coef m20 m21 m30 m31))
             (m00 * Coef m11 m13 m31 m33 - m01 * Coef m10 m13 m30 m33 + m03 * Coef m10 m11 m30 m31)
             (- (m00 * Coef m11 m13 m21 m23 - m01 * Coef m10 m13 m20 m23 + m03 * Coef m10 m11 m20 m21)))
       (Vec4 (- (m10 * Coef m21 m22 m31 m32 - m11 * Coef m20 m22 m30 m32 + m12 * Coef m20 m21 m30 m31))
             (m00 * Coef m21 m22 m31 m32 - m01 * Coef m20 m22 m30 m32 + m02 * Coef m20 m21 m30 m31)
             (- (m00 * Coef m11 m12 m31 m32 - m01 * Coef m10 m12 m30 m32 + m02 * Coef m10 m11 m30 m31))
             (m00 * Coef m11 m12 m21 m22 - m01 * Coef m10 m12 m20 m22 + m02 * Coef m10 m11 m20 m21))"

definition glm_determinant :: "mat4 \<Rightarrow> float" where
  "glm_determinant m =
     (x4 (col0 m) * x4 (col0 (glm_cofactors m)) + y4 (col0 m) * x4 (col1 (glm_cofactors m))) +
     (z4 (col0 m) * x4 (col2 (glm_cofactors m)) + w4 (col0 m) * x4 (col3 (glm_cofactors m)))"

definition glm_inverse :: "mat4 \<Rightarrow> mat4 option" where
  "glm_inverse m =
     do { OneOverDeterminant \<leftarrow> float_div 1 (glm_determinant m);
          Some (mat4_smul (glm_cofactors m) OneOverDeterminant) }"

section \<open>Constants and enumerations\<close>

text \<open>
  \<^verbatim>\<open>ImGuizmoMode\<close>, \<^verbatim>\<open>ImGuizmoOperation\<close> and \<^verbatim>\<open>ImGuizmoAxis\<close> are aliases of
  \<^verbatim>\<open>int\<close>; the flag types are aliases of \<^verbatim>\<open>unsigned int\<close>. A pointer to the
  caller's matrix is a 64-bit address, \<open>0\<close> for \<^verbatim>\<open>nullptr\<close>, and an \<^verbatim>\<open>ImGuiID\<close>
  is a 32-bit word.
\<close>

type_synonym ImGuizmoMode = int
type_synonym ImGuizmoOperation = int
type_synonym ImGuizmoAxis = int
type_synonym ImGuizmoPlane = int
type_synonym ImGuizmoAxisFlags = "32 word"
type_synonym ImGuizmoConfigFlags = "32 word"
type_synonym ImGuiID = "32 word"
type_synonym addr = "64 word"

definition ImGuizmoMode_World :: ImGuizmoMode where "ImGuizmoMode_World = 0"
definition ImGuizmoMode_Local :: ImGuizmoMode where "ImGuizmoMode_Local = 1"

definition ImGuizmoOperation_None :: ImGuizmoOperation where "ImGuizmoOperation_None = 0"
definition ImGuizmoOperation_Translate :: ImGuizmoOperation where "ImGuizmoOperation_Translate = 1"
definition ImGuizmoOperation_Rotate :: ImGuizmoOperation where "ImGuizmoOperation_Rotate = 2"
definition ImGuizmoOperation_Scale :: ImGuizmoOperation where "ImGuizmoOperation_Scale = 3"
definition ImGuizmoOperation_BoundsScale :: ImGuizmoOperation where "ImGuizmoOperation_BoundsScale = 4"

definition ImGuizmoAxis_X :: ImGuizmoAxis where "ImGuizmoAxis_X = 0"
definition ImGuizmoAxis_Y :: ImGuizmoAxis where "ImGuizmoAxis_Y = 1"
definition ImGuizmoAxis_Z :: ImGuizmoAxis where "ImGuizmoAxis_Z = 2"

definition ImGuizmoPlane_YZ :: ImGuizmoPlane where "ImGuizmoPlane_YZ = 0"
definition ImGuizmoPlane_ZX :: ImGuizmoPlane where "ImGuizmoPlane_ZX = 1"
definition ImGuizmoPlane_XY :: ImGuizmoPlane where "ImGuizmoPlane_XY = 2"

definition ImGuizmoAxisFlags_None :: ImGuizmoAxisFlags where "ImGuizmoAxisFlags_None = 0"
definition ImGuizmoAxisFlags_X :: ImGuizmoAxisFlags where "ImGuizmoAxisFlags_X = push_bit 0 1"
definition ImGuizmoAxisFlags_Y :: ImGuizmoAxisFlags where "ImGuizmoAxisFlags_Y = push_bit 1 1"
definition ImGuizmoAxisFlags_Z :: ImGuizmoAxisFlags where "ImGuizmoAxisFlags_Z = push_bit 2 1"

definition ImGuizmoAxisFlags_YZ :: ImGuizmoAxisFlags where
  "ImGuizmoAxisFlags_YZ = ImGuizmoAxisFlags_Y OR ImGuizmoAxisFlags_Z"

definition ImGuizmoAxisFlags_ZX :: ImGuizmoAxisFlags where
  "ImGuizmoAxisFlags_ZX = ImGuizmoAxisFlags_Z OR ImGuizmoAxisFlags_X"

definition ImGuizmoAxisFlags_XY :: ImGuizmoAxisFlags where
  "ImGuizmoAxisFlags_XY = ImGuizmoAxisFlags_X OR ImGuizmoAxisFlags_Y"

definition ImGuizmoAxisFlags_ALL :: ImGuizmoAxisFlags where
  "ImGuizmoAxisFlags_ALL = ImGuizmoAxisFlags_X OR ImGuizmoAxisFlags_Y OR ImGuizmoAxisFlags_Z"

definition ImGuizmoConfigFlags_None :: ImGuizmoConfigFlags where
  "ImGuizmoConfigFlags_None = 0"

definition ImGuizmoConfigFlags_CloakOnManipulate :: ImGuizmoConfigFlags where
  "ImGuizmoConfigFlags_CloakOnManipulate = push_bit 0 1"

definition ImGuizmoConfigFlags_HideLocked :: ImGuizmoConfigFlags where
  "ImGuizmoConfigFlags_HideLocked = push_bit 1 1"

definition ImGuizmoConfigFlags_HasReversing :: ImGuizmoConfigFlags where
  "ImGuizmoConfigFlags_HasReversing = push_bit 2 1"

text \<open>
  The flag helpers. The \<^verbatim>\<open>default\<close> branch of each \<^verbatim>\<open>switch\<close> asserts and returns
  \<^verbatim>\<open>-1\<close>; the callers modelled below reach it with no value.
\<close>

definition HasSingleAxis :: "ImGuizmoAxisFlags \<Rightarrow> bool" where
  "HasSingleAxis flags \<longleftrightarrow>
     flags = ImGuizmoAxisFlags_X \<or> flags = ImGuizmoAxisFlags_Y \<or> flags = ImGuizmoAxisFlags_Z"

definition GetAxisIdx :: "ImGuizmoAxisFlags \<Rightarrow> bool \<Rightarrow> ImGuizmoAxis" where
  "GetAxisIdx flags around =
     (if flags = ImGuizmoAxisFlags_X then (if around then ImGuizmoAxis_Z else ImGuizmoAxis_X)
      else if flags = ImGuizmoAxisFlags_Y then ImGuizmoAxis_Y
      else if flags = ImGuizmoAxisFlags_Z then (if around then ImGuizmoAxis_X else ImGuizmoAxis_Z)
      else - 1)"

definition AxisToFlag :: "ImGuizmoAxis \<Rightarrow> bool \<Rightarrow> ImGuizmoAxisFlags" where
  "AxisToFlag axis_idx around =
     (if axis_idx = ImGuizmoAxis_X
        then (if around then ImGuizmoAxisFlags_Z else ImGuizmoAxisFlags_X)
      else if axis_idx = ImGuizmoAxis_Y then ImGuizmoAxisFlags_Y
      else if axis_idx = ImGuizmoAxis_Z
        then (if around then ImGuizmoAxisFlags_X else ImGuizmoAxisFlags_Z)
      else - 1)"

definition HasPlane :: "ImGuizmoAxisFlags \<Rightarrow> bool" where
  "HasPlane flags \<longleftrightarrow>
     (if flags = ImGuizmoAxisFlags_ALL then False
      else flags = ImGuizmoAxisFlags_YZ \<or> flags = ImGuizmoAxisFlags_ZX \<or>
           flags = ImGuizmoAxisFlags_XY)"

definition GetPlaneIdx :: "ImGuizmoAxisFlags \<Rightarrow> ImGuizmoPlane" where
  "GetPlaneIdx flags =
     (if flags = ImGuizmoAxisFlags_YZ then ImGuizmoPlane_YZ
      else if flags = ImGuizmoAxisFlags_ZX then ImGuizmoPlane_ZX
      else if flags = ImGuizmoAxisFlags_XY then ImGuizmoPlane_XY
      else - 1)"

section \<open>Internal types and the context\<close>

record ImGuizmoRay =
  Origin :: vec3
  End :: vec3
  Direction :: vec3

record ImGuizmoCamera =
  IsOrtho :: bool
  ViewMatrix :: mat4
  ProjectionMatrix :: mat4
  ViewProjectionMatrix :: mat4
  Right :: vec3
  Up :: vec3
  Forward :: vec3
  Eye :: vec3

text \<open>
  The widget. Its two screen-space fields \<^verbatim>\<open>Origin\<close> and \<^verbatim>\<open>RingRadius\<close> are read by
  hit-testing and rendering only and are left out; \<^verbatim>\<open>ScreenFactor\<close> enters the
  translation and scale drags and is kept.
\<close>

record ImGuizmoWidget =
  ID :: ImGuiID
  SourceModelMatrix :: mat4
  ModelMatrix :: mat4
  InversedModelMatrix :: mat4
  ModelViewProjMatrix :: mat4
  Mode :: ImGuizmoMode
  ActiveOperation :: ImGuizmoOperation
  ActiveManipulationFlags :: ImGuizmoAxisFlags
  LockedAxesFlags :: ImGuizmoAxisFlags
  Dirty :: bool
  ScreenFactor :: float
  TranslationPlane :: vec4
  TranslationPlaneOrigin :: vec3
  ModelRelativeOrigin :: vec3
  DragTranslationOrigin :: vec3
  LastTranslationDelta :: vec3
  ModelScaleOrigin :: vec3
  RotationVectorSource :: vec3
  RotationAngle :: float
  RotationAngleOrigin :: float
  Scale :: vec3
  LastScale :: vec3
  ScaleValueOrigin :: vec3

text \<open>The constructor \<^verbatim>\<open>ImGuizmoWidget(id)\<close> with the default member initializers.\<close>

definition ImGuizmoWidget_new :: "ImGuiID \<Rightarrow> ImGuizmoWidget" where
  "ImGuizmoWidget_new ident =
     \<lparr> ID = ident,
       SourceModelMatrix = mat4_identity,
       ModelMatrix = mat4_identity,
       InversedModelMatrix = mat4_identity,
       ModelViewProjMatrix = mat4_identity,
       Mode = ImGuizmoMode_Local,
       ActiveOperation = ImGuizmoOperation_None,
       ActiveManipulationFlags = ImGuizmoAxisFlags_None,
       LockedAxesFlags = ImGuizmoAxisFlags_None,
       Dirty = False,
       ScreenFactor = 0,
       TranslationPlane = Vec4 0 0 0 0,
       TranslationPlaneOrigin = vec3_splat 0,
       ModelRelativeOrigin = vec3_splat 0,
       DragTranslationOrigin = vec3_splat 0,
       LastTranslationDelta = vec3_splat 0,
       ModelScaleOrigin = vec3_splat 1,
       RotationVectorSource = vec3_splat 0,
       RotationAngle = 0,
       RotationAngleOrigin = 0,
       Scale = vec3_splat 1,
       LastScale = vec3_splat 1,
       ScaleValueOrigin = vec3_splat 1 \<rparr>"

record ImRect =
  Min_rect :: vec2
  Max_rect :: vec2

definition GetTL :: "ImRect \<Rightarrow> vec2" where
  "GetTL bb = Min_rect bb"

definition GetSize :: "ImRect \<Rightarrow> vec2" where
  "GetSize bb = vec2_sub (Max_rect bb) (Min_rect bb)"

definition GetWidth :: "ImRect \<Rightarrow> float" where
  "GetWidth bb = x2 (Max_rect bb) - x2 (Min_rect bb)"

definition GetHeight :: "ImRect \<Rightarrow> float" where
  "GetHeight bb = y2 (Max_rect bb) - y2 (Min_rect bb)"

record ImGuizmoStyle =
  GizmoScale :: float
  RotationRingThickness :: float
  Alpha :: float

record ImGuizmoBounds =
  Anchor :: vec3
  LocalPivot :: vec3
  Pivot :: vec3
  ActivePlane :: ImGuizmoPlane
  ActiveBoundIdx :: int

text \<open>
  The global context \<^verbatim>\<open>GImGuizmo\<close>. The widgets live in \<^verbatim>\<open>GizmosById\<close>, keyed by
  their identifier, and \<^verbatim>\<open>CurrentGizmo\<close> and \<^verbatim>\<open>ActiveGizmo\<close>, pointers to widgets
  in the source, hold the identifier of the widget they point to (\<open>None\<close> for
  \<^verbatim>\<open>nullptr\<close>), so that both name the same object when they alias. The draw list,
  the colour table, the bound point tables and the plane visibility ranking serve
  rendering and hit-testing and are left out.
\<close>

record ImGuizmoContext =
  Style :: ImGuizmoStyle
  ConfigFlags :: ImGuizmoConfigFlags
  Viewport :: ImRect
  Camera :: ImGuizmoCamera
  Ray :: ImGuizmoRay
  DragOrigin :: vec2
  GizmosById :: "ImGuiID \<rightharpoonup> ImGuizmoWidget"
  CurrentGizmo :: "ImGuiID option"
  ActiveGizmo :: "ImGuiID option"
  Bounds :: ImGuizmoBounds
  LockedModelMatrix :: addr
  BackupModelMatrix :: mat4

text \<open>The statically initialized context, from the default member initializers.\<close>

definition GImGuizmo :: ImGuizmoContext where
  "GImGuizmo =
     \<lparr> Style = \<lparr> GizmoScale = 1 / 10, RotationRingThickness = 7 / 2, Alpha = 1 \<rparr>,
       ConfigFlags = ImGuizmoConfigFlags_None,
       Viewport = \<lparr> Min_rect = Vec2 0 0, Max_rect = Vec2 0 0 \<rparr>,
       Camera = \<lparr> IsOrtho = False,
                  ViewMatrix = mat4_identity,
                  ProjectionMatrix = mat4_identity,
                  ViewProjectionMatrix = mat4_identity,
                  Right = Vec3 1 0 0, Up = Vec3 0 1 0, Forward = Vec3 0 0 1,
                  Eye = vec3_splat 0 \<rparr>,
       Ray = \<lparr> Origin = vec3_splat 0, End = vec3_splat 0, Direction = vec3_splat 0 \<rparr>,
       DragOrigin = Vec2 0 0,
       GizmosById = Map.empty,
       CurrentGizmo = None,
       ActiveGizmo = None,
       Bounds = \<lparr> Anchor = vec3_splat 0, LocalPivot = vec3_splat 0, Pivot = vec3_splat 0,
                  ActivePlane = - 1, ActiveBoundIdx = - 1 \<rparr>,
       LockedModelMatrix = 0,
       BackupModelMatrix = mat4_identity \<rparr>"

text \<open>
  What the host GUI supplies in a frame: the mouse, and the window geometry from
  which \<^verbatim>\<open>CalculateViewport\<close> takes the viewport. The caller's matrices live in a
  memory of matrices indexed by address.
\<close>

record ImGuiIO =
  MousePos :: vec2
  MouseDown :: "nat \<Rightarrow> bool"
  MouseClicked :: "nat \<Rightarrow> bool"
  WindowPos :: vec2
  WindowContentRegionMin :: vec2
  WindowContentRegionMax :: vec2

type_synonym memory = "addr \<Rightarrow> mat4"

text \<open>
  A failed \<^verbatim>\<open>IM_ASSERT\<close> and a dereferenced null widget end the program; both are
  error values here. \<open>NotFinite\<close> is the result of a call in which a float operation
  leaves the finite numbers: the program does not stop there, it goes on with an
  infinity or a NaN, and the model does not follow it.
\<close>

datatype error = AssertionFailed | NullPointer | NotFinite

definition GetCurrentGizmo :: "ImGuizmoContext \<Rightarrow> ImGuizmoWidget option" where
  "GetCurrentGizmo g = (case CurrentGizmo g of None \<Rightarrow> None | Some i \<Rightarrow> GizmosById g i)"

text \<open>
  Writing through the pointer \<^verbatim>\<open>GetCurrentGizmo()\<close>: the widget that
  \<^verbatim>\<open>CurrentGizmo\<close> names is replaced.
\<close>

definition store_gizmo :: "ImGuizmoWidget \<Rightarrow> ImGuizmoContext \<Rightarrow> ImGuizmoContext" where
  "store_gizmo gizmo g =
     (case CurrentGizmo g of
        None \<Rightarrow> g
      | Some i \<Rightarrow> g\<lparr> GizmosById := (GizmosById g)(i \<mapsto> gizmo) \<rparr>)"

text \<open>
  \<^verbatim>\<open>FindGizmoById\<close> followed, when it finds nothing, by \<^verbatim>\<open>CreateNewGizmo\<close>: the
  widget of an identifier, a fresh one when there is none yet.
\<close>

definition FindOrCreateGizmo :: "ImGuizmoContext \<Rightarrow> ImGuiID \<Rightarrow> ImGuizmoWidget" where
  "FindOrCreateGizmo g ident =
     (case GizmosById g ident of None \<Rightarrow> ImGuizmoWidget_new ident | Some w \<Rightarrow> w)"

section \<open>Geometry helpers\<close>

definition BuildPlane :: "vec3 \<Rightarrow> vec3 \<Rightarrow> vec4 option" where
  "BuildPlane point normal = do { n \<leftarrow> normalize3 normal; Some (vec4_of n (dot3 n point)) }"

definition IntersectRayPlane :: "ImGuizmoRay \<Rightarrow> vec4 \<Rightarrow> float" where
  "IntersectRayPlane ray plane =
     (let num = dot3 (xyz plane) (Origin ray) - w4 plane;
          denom = dot3 (xyz plane) (Direction ray)
      in if \<bar>denom\<bar> < kEpsilon then - 1 else - (num / denom))"

definition RayCast :: "ImGuiIO \<Rightarrow> mat4 \<Rightarrow> ImRect \<Rightarrow> ImGuizmoRay option" where
  "RayCast io view_proj_matrix bb =
     do { ndc \<leftarrow> vec2_div (vec2_sub (MousePos io) (GetTL bb)) (GetSize bb);
          let mouse_pos = Vec2 (x2 ndc * 2 - 1) ((y2 ndc * 2 - 1) * (- 1));
          inversed_view_proj \<leftarrow> glm_inverse view_proj_matrix;
          let origin = mat4_mul_vec inversed_view_proj (vec4_of2 mouse_pos 0 1);
          origin_scale \<leftarrow> float_div 1 (w4 origin);
          let ray_origin_world_space = vec4_mul origin origin_scale;
          let end = mat4_mul_vec inversed_view_proj (vec4_of2 mouse_pos (1 - kEpsilon) 1);
          end_scale \<leftarrow> float_div 1 (w4 end);
          let ray_end_world_space = vec4_mul end end_scale;
          direction \<leftarrow> normalize4 (vec4_sub ray_end_world_space ray_origin_world_space);
          Some \<lparr> Origin = xyz ray_origin_world_space,
                 End = xyz ray_end_world_space,
                 Direction = xyz direction \<rparr> }"

definition GetAspectRatio :: "ImGuizmoContext \<Rightarrow> float option" where
  "GetAspectRatio g = float_div (GetWidth (Viewport g)) (GetHeight (Viewport g))"

text \<open>\<^verbatim>\<open>GetSegmentLengthClipSpace\<close> reads the current widget, passed here as \<open>gizmo\<close>.\<close>

definition perspective_divide :: "vec4 \<Rightarrow> vec4" where
  "perspective_divide p = (if \<bar>w4 p\<bar> > kEpsilon then vec4_mul p (1 / w4 p) else p)"

definition GetSegmentLengthClipSpace ::
  "ImGuizmoContext \<Rightarrow> ImGuizmoWidget \<Rightarrow> vec3 \<Rightarrow> vec3 \<Rightarrow> float option" where
  "GetSegmentLengthClipSpace g gizmo start end =
     (let start_of_segment =
            perspective_divide (mat4_mul_vec (ModelViewProjMatrix gizmo) (vec4_of start 1));
          end_of_segment =
            perspective_divide (mat4_mul_vec (ModelViewProjMatrix gizmo) (vec4_of end 1));
          clip_space_axis = xy (vec4_sub end_of_segment start_of_segment)
      in do { aspect_ratio \<leftarrow> GetAspectRatio g;
              y \<leftarrow> float_div (y2 clip_space_axis) aspect_ratio;
              Some (length2 (Vec2 (x2 clip_space_axis) y)) })"

section \<open>Snapping\<close>

definition CalculateSnap :: "float \<Rightarrow> float \<Rightarrow> float" where
  "CalculateSnap val snap =
     (if snap \<le> kEpsilon then val
      else
        let modulo = glm_fmod val snap;
            modulo_ratio = \<bar>modulo\<bar> / snap;
            snap_tension = 1 / 2
        in if modulo_ratio < snap_tension then val - modulo
           else if modulo_ratio > 1 - snap_tension
             then val - modulo + snap * (if val < 0 then - 1 else 1)
           else val)"

text \<open>The overload on a vector snaps the three components, each by its own step.\<close>

definition CalculateSnap3 :: "vec3 \<Rightarrow> (int \<Rightarrow> float) \<Rightarrow> vec3" where
  "CalculateSnap3 val snap =
     fold (\<lambda>axis_idx v. vec3_set v axis_idx (CalculateSnap (vec3_get v axis_idx) (snap axis_idx)))
       [0, 1, 2] val"

section \<open>Widget methods\<close>

text \<open>Normalizing the three axis columns of a matrix, as the loops over \<^verbatim>\<open>axis_idx\<close> do.\<close>

definition normalize_axes :: "mat4 \<Rightarrow> mat4 option" where
  "normalize_axes m =
     fold (\<lambda>axis_idx r.
             do { m \<leftarrow> r;
                  c \<leftarrow> normalize4 (mat4_col m axis_idx);
                  Some (mat4_set_col m axis_idx c) })
       [0, 1, 2] (Some m)"

definition axis_lengths :: "mat4 \<Rightarrow> vec3 \<Rightarrow> vec3" where
  "axis_lengths m v =
     fold (\<lambda>axis_idx v. vec3_set v axis_idx (length4 (mat4_col m axis_idx))) [0, 1, 2] v"

text \<open>\<^verbatim>\<open>ImGuizmoWidget::Load\<close>; \<open>model\<close> is the matrix read through the pointer.\<close>

definition Load ::
  "ImGuizmoContext \<Rightarrow> mat4 \<Rightarrow> ImGuizmoWidget \<Rightarrow> ImGuizmoWidget option" where
  "Load g model gizmo =
     do { new_model \<leftarrow>
            (if Mode gizmo = ImGuizmoMode_Local then normalize_axes model
             else Some (glm_translate (xyz (mat4_col model 3))));
          inversed \<leftarrow> glm_inverse new_model;
          let gizmo1 = gizmo\<lparr> SourceModelMatrix := model,
                              ModelMatrix := new_model,
                              ModelViewProjMatrix :=
                                mat4_mul (ViewProjectionMatrix (Camera g)) new_model,
                              ModelScaleOrigin := axis_lengths model (ModelScaleOrigin gizmo),
                              InversedModelMatrix := inversed \<rparr>;
          let right_view_inverse = xyz (mat4_mul_vec inversed (vec4_of (Right (Camera g)) 0));
          right_length \<leftarrow>
            GetSegmentLengthClipSpace g gizmo1 (vec3_splat 0) right_view_inverse;
          screen_factor \<leftarrow> float_div (GizmoScale (Style g)) right_length;
          Some (gizmo1\<lparr> ScreenFactor := screen_factor \<rparr>) }"

definition CalculateAngleOnPlane :: "ImGuizmoContext \<Rightarrow> ImGuizmoWidget \<Rightarrow> float option" where
  "CalculateAngleOnPlane g gizmo =
     do { let len = IntersectRayPlane (Ray g) (TranslationPlane gizmo);
          local_pos \<leftarrow>
            normalize3
              (vec3_sub (vec3_add (Origin (Ray g)) (vec3_mul (Direction (Ray g)) len))
                        (xyz (mat4_col (ModelMatrix gizmo) 3)));
          perpendicular_vec \<leftarrow>
            normalize3 (cross (RotationVectorSource gizmo) (xyz (TranslationPlane gizmo)));
          let acos_angle = glm_clamp (dot3 local_pos (RotationVectorSource gizmo)) (- 1) 1;
          let angle = arccos acos_angle;
          Some (angle * (if dot3 local_pos perpendicular_vec < 0 then 1 else - 1)) }"

section \<open>Behaviour of a handle\<close>

text \<open>
  \<^verbatim>\<open>GizmoBehavior\<close> works on the context and the current widget and yields
  \<^verbatim>\<open>pressed\<close>, \<^verbatim>\<open>held\<close> and the hover flags it may have replaced. The widget
  pointer \<^verbatim>\<open>gizmo\<close> it compares with and assigns to \<^verbatim>\<open>ActiveGizmo\<close> is
  \<^verbatim>\<open>CurrentGizmo\<close>.
\<close>

definition GizmoBehavior ::
  "ImGuiIO \<Rightarrow> ImGuizmoOperation \<Rightarrow> ImGuizmoAxisFlags \<Rightarrow> ImGuizmoContext \<times> ImGuizmoWidget \<Rightarrow>
     error + (bool \<times> bool \<times> ImGuizmoAxisFlags \<times> ImGuizmoContext \<times> ImGuizmoWidget)" where
  "GizmoBehavior io operation hover_flags0 st =
     (case st of (g, gizmo) \<Rightarrow>
        if operation = 0 then Inl AssertionFailed
        else
          let hover_flags =
                (if ActiveGizmo g \<noteq> CurrentGizmo g \<and> ActiveGizmo g \<noteq> None
                   then ImGuizmoAxisFlags_None
                 else if ActiveOperation gizmo \<noteq> operation \<and> ActiveOperation gizmo \<noteq> 0
                   then ImGuizmoAxisFlags_None
                 else if ActiveManipulationFlags gizmo \<noteq> 0
                   then ActiveManipulationFlags gizmo
                 else hover_flags0);
              pressed = (hover_flags \<noteq> 0 \<and> MouseClicked io 0);
              g1 = (if pressed then g\<lparr> ActiveGizmo := CurrentGizmo g \<rparr> else g);
              gizmo1 =
                (if pressed
                   then gizmo\<lparr> ActiveOperation := operation,
                               ActiveManipulationFlags := hover_flags \<rparr>
                 else gizmo);
              engaged = (ActiveManipulationFlags gizmo1 = hover_flags \<and>
                         ActiveManipulationFlags gizmo1 \<noteq> 0);
              held = (engaged \<and> MouseDown io 0);
              released = (engaged \<and> \<not> MouseDown io 0);
              g2 = (if released then g1\<lparr> ActiveGizmo := None \<rparr> else g1);
              gizmo2 =
                (if released
                   then gizmo1\<lparr> ActiveManipulationFlags := ImGuizmoAxisFlags_None \<rparr>
                 else gizmo1)
          in Inr (pressed, held, hover_flags, g2, gizmo2))"

section \<open>Translation\<close>

definition BuildTranslatePlane :: "ImGuizmoContext \<Rightarrow> ImGuizmoWidget \<Rightarrow> vec4 option" where
  "BuildTranslatePlane g gizmo =
     do { let hover_flags = ActiveManipulationFlags gizmo;
          move_plane_normal \<leftarrow>
            (if HasPlane hover_flags
               then Some (xyz (mat4_col (ModelMatrix gizmo) (GetPlaneIdx hover_flags)))
             else if HasSingleAxis hover_flags then
               do { let dir = xyz (mat4_col (ModelMatrix gizmo) (GetAxisIdx hover_flags False));
                    camera_to_model_normalized \<leftarrow>
                      normalize3 (vec3_sub (xyz (mat4_col (ModelMatrix gizmo) 3)) (Eye (Camera g)));
                    let orthoDir = cross dir camera_to_model_normalized;
                    normalize3 (cross dir orthoDir) }
             else Some (vec3_neg (Forward (Camera g))));
          BuildPlane (xyz (mat4_col (ModelMatrix gizmo) 3)) move_plane_normal }"

definition BeginTranslation ::
  "ImGuiIO \<Rightarrow> ImGuizmoContext \<times> ImGuizmoWidget \<Rightarrow>
     (ImGuizmoContext \<times> ImGuizmoWidget) option" where
  "BeginTranslation io st =
     (case st of (g, gizmo) \<Rightarrow>
        do { let g1 = g\<lparr> BackupModelMatrix := SourceModelMatrix gizmo,
                          DragOrigin := MousePos io \<rparr>;
             plane \<leftarrow> BuildTranslatePlane g1 gizmo;
             let len = IntersectRayPlane (Ray g1) plane;
             let plane_origin = vec3_add (Origin (Ray g1)) (vec3_mul (Direction (Ray g1)) len);
             inverse_factor \<leftarrow> float_div 1 (ScreenFactor gizmo);
             Some (g1,
                   gizmo\<lparr> DragTranslationOrigin := xyz (mat4_col (ModelMatrix gizmo) 3),
                           TranslationPlane := plane,
                           TranslationPlaneOrigin := plane_origin,
                           ModelRelativeOrigin :=
                             vec3_mul (vec3_sub plane_origin (xyz (mat4_col (ModelMatrix gizmo) 3)))
                                      inverse_factor \<rparr>) })"

text \<open>
  The loop over the locked axes at the end of \<^verbatim>\<open>ContinueTranslation\<close>: the
  component of column 3 on a locked axis is set to the drag origin's.
\<close>

definition lock_translation :: "ImGuizmoAxisFlags \<Rightarrow> vec3 \<Rightarrow> mat4 \<Rightarrow> mat4" where
  "lock_translation locked drag_origin m =
     fold (\<lambda>axis_idx m.
             if locked AND AxisToFlag axis_idx False \<noteq> 0
               then mat4_set_col m 3 (vec4_set (mat4_col m 3) axis_idx (vec3_get drag_origin axis_idx))
             else m)
       [0, 1, 2] m"

definition ContinueTranslation ::
  "(int \<Rightarrow> float) option \<Rightarrow> ImGuizmoContext \<Rightarrow> ImGuizmoWidget \<Rightarrow> ImGuizmoWidget option" where
  "ContinueTranslation snap g gizmo =
     (let hover_flags = ActiveManipulationFlags gizmo;
          position = xyz (mat4_col (ModelMatrix gizmo) 3);
          len = \<bar>IntersectRayPlane (Ray g) (TranslationPlane gizmo)\<bar>;
          target_position = vec3_add (Origin (Ray g)) (vec3_mul (Direction (Ray g)) len);
          new_position =
            vec3_sub target_position (vec3_mul (ModelRelativeOrigin gizmo) (ScreenFactor gizmo));
          free_delta = vec3_sub new_position position;
          axis_delta =
            (if HasSingleAxis hover_flags then
               let axis_value = xyz (mat4_col (ModelMatrix gizmo) (GetAxisIdx hover_flags False));
                   length_on_axis = dot3 axis_value free_delta
               in vec3_mul axis_value length_on_axis
             else free_delta)
      in do { delta \<leftarrow>
                (case snap of
                   None \<Rightarrow> Some axis_delta
                 | Some steps \<Rightarrow>
                     do { let cumulative_delta =
                                vec3_sub (vec3_add position axis_delta) (DragTranslationOrigin gizmo);
                          let apply_rotation_localy =
                                (Mode gizmo = ImGuizmoMode_Local \<or>
                                 hover_flags = ImGuizmoAxisFlags_ALL);
                          snapped \<leftarrow>
                            (if apply_rotation_localy then
                               do { source_model_normalized \<leftarrow>
                                      normalize_axes (SourceModelMatrix gizmo);
                                    inversed \<leftarrow> glm_inverse source_model_normalized;
                                    Some (xyz (mat4_mul_vec source_model_normalized
                                            (vec4_of
                                               (CalculateSnap3
                                                  (xyz (mat4_mul_vec inversed
                                                          (vec4_of cumulative_delta 0)))
                                                  steps) 0))) }
                             else Some (CalculateSnap3 cumulative_delta steps));
                          Some (vec3_sub (vec3_add (DragTranslationOrigin gizmo) snapped)
                                  position) });
              let gizmo1 =
                    (if delta \<noteq> LastTranslationDelta gizmo
                       then gizmo\<lparr> ModelMatrix :=
                                      lock_translation (LockedAxesFlags gizmo)
                                        (DragTranslationOrigin gizmo)
                                        (mat4_mul (glm_translate delta) (SourceModelMatrix gizmo)),
                                   Dirty := True \<rparr>
                     else gizmo);
              Some (gizmo1\<lparr> LastTranslationDelta := delta \<rparr>) })"

section \<open>Rotation\<close>

definition BuildRotationPlane :: "ImGuizmoContext \<Rightarrow> ImGuizmoWidget \<Rightarrow> vec4 option" where
  "BuildRotationPlane g gizmo =
     (let hover_flags = ActiveManipulationFlags gizmo
      in if HasSingleAxis hover_flags
           then BuildPlane
                  (if Mode gizmo = ImGuizmoMode_Local then xyz (mat4_col (ModelMatrix gizmo) 3)
                   else xyz (mat4_col (SourceModelMatrix gizmo) 3))
                  (xyz (mat4_col (ModelMatrix gizmo) (GetAxisIdx hover_flags False)))
         else BuildPlane (xyz (mat4_col (SourceModelMatrix gizmo) 3))
                (vec3_neg (Forward (Camera g))))"

definition BeginRotation ::
  "ImGuiIO \<Rightarrow> ImGuizmoContext \<times> ImGuizmoWidget \<Rightarrow>
     (ImGuizmoContext \<times> ImGuizmoWidget) option" where
  "BeginRotation io st =
     (case st of (g, gizmo) \<Rightarrow>
        do { let g1 = g\<lparr> BackupModelMatrix := SourceModelMatrix gizmo,
                          DragOrigin := MousePos io \<rparr>;
             plane \<leftarrow> BuildRotationPlane g1 gizmo;
             let len = IntersectRayPlane (Ray g1) plane;
             source \<leftarrow>
               normalize3
                 (vec3_sub (vec3_add (Origin (Ray g1)) (vec3_mul (Direction (Ray g1)) len))
                           (xyz (mat4_col (ModelMatrix gizmo) 3)));
             let gizmo1 = gizmo\<lparr> TranslationPlane := plane, RotationVectorSource := source \<rparr>;
             angle \<leftarrow> CalculateAngleOnPlane g1 gizmo1;
             Some (g1, gizmo1\<lparr> RotationAngleOrigin := angle \<rparr>) })"

definition ContinueRotation ::
  "(int \<Rightarrow> float) option \<Rightarrow> ImGuizmoContext \<Rightarrow> ImGuizmoWidget \<Rightarrow> ImGuizmoWidget option" where
  "ContinueRotation snap g gizmo =
     do { measured \<leftarrow> CalculateAngleOnPlane g gizmo;
          let rotation_angle =
                (case snap of
                   None \<Rightarrow> measured
                 | Some steps \<Rightarrow> CalculateSnap measured (glm_radians (steps 0)));
          axis \<leftarrow>
            normalize4
              (mat4_mul_vec (InversedModelMatrix gizmo) (vec4_of (xyz (TranslationPlane gizmo)) 0));
          let rotation_axis_local_space = xyz axis;
          let angle = rotation_angle - RotationAngleOrigin gizmo;
          delta_rotation \<leftarrow> glm_rotate angle rotation_axis_local_space;
          let gizmo1 =
                (if rotation_angle \<noteq> RotationAngleOrigin gizmo then
                   (if Mode gizmo = ImGuizmoMode_Local
                      then gizmo\<lparr> ModelMatrix :=
                                     mat4_mul (ModelMatrix gizmo)
                                       (mat4_mul delta_rotation
                                          (glm_scale (ModelScaleOrigin gizmo))),
                                  Dirty := True \<rparr>
                    else
                      let result = mat4_set_col (SourceModelMatrix gizmo) 3 (Vec4 0 0 0 1)
                      in gizmo\<lparr> ModelMatrix :=
                                   mat4_set_col (mat4_mul delta_rotation result) 3
                                     (mat4_col (SourceModelMatrix gizmo) 3),
                                Dirty := True \<rparr>)
                 else gizmo);
          Some (gizmo1\<lparr> RotationAngle := rotation_angle,
                        RotationAngleOrigin := rotation_angle \<rparr>) }"

section \<open>Scale\<close>

definition BuildScalePlane :: "ImGuizmoWidget \<Rightarrow> vec4 option" where
  "BuildScalePlane gizmo =
     (let hover_flags = ActiveManipulationFlags gizmo
      in if HasSingleAxis hover_flags then
           let axis_idx = GetAxisIdx hover_flags False
           in BuildPlane (xyz (mat4_col (ModelMatrix gizmo) 3))
                (xyz (mat4_col (ModelMatrix gizmo) (if axis_idx = 2 then 0 else axis_idx + 1)))
         else BuildPlane (xyz (mat4_col (ModelMatrix gizmo) 3))
                (xyz (mat4_col (ModelMatrix gizmo) 2)))"

definition BeginScale ::
  "ImGuiIO \<Rightarrow> ImGuizmoContext \<times> ImGuizmoWidget \<Rightarrow>
     (ImGuizmoContext \<times> ImGuizmoWidget) option" where
  "BeginScale io st =
     (case st of (g, gizmo) \<Rightarrow>
        do { let g1 = g\<lparr> BackupModelMatrix := SourceModelMatrix gizmo,
                          DragOrigin := MousePos io \<rparr>;
             plane \<leftarrow> BuildScalePlane gizmo;
             let len = IntersectRayPlane (Ray g1) plane;
             let plane_origin = vec3_add (Origin (Ray g1)) (vec3_mul (Direction (Ray g1)) len);
             inverse_factor \<leftarrow> float_div 1 (ScreenFactor gizmo);
             Some (g1,
                   gizmo\<lparr> Scale := vec3_splat 1,
                           DragTranslationOrigin := xyz (mat4_col (ModelMatrix gizmo) 3),
                           TranslationPlane := plane,
                           TranslationPlaneOrigin := plane_origin,
                           ModelRelativeOrigin :=
                             vec3_mul (vec3_sub plane_origin (xyz (mat4_col (ModelMatrix gizmo) 3)))
                                      inverse_factor,
                           ScaleValueOrigin :=
                             axis_lengths (SourceModelMatrix gizmo) (ScaleValueOrigin gizmo) \<rparr>) })"

text \<open>
  The loop that ends \<^verbatim>\<open>ContinueScale\<close>: each component is raised to at least
  \<^verbatim>\<open>0.001f\<close>, and a locked axis is reset to \<open>1\<close>.
\<close>

definition clamp_and_lock_scale :: "ImGuizmoAxisFlags \<Rightarrow> vec3 \<Rightarrow> vec3" where
  "clamp_and_lock_scale locked scale =
     fold (\<lambda>axis_idx v.
             let v1 = vec3_set v axis_idx (max (vec3_get v axis_idx) (1 / 1000))
             in if locked AND AxisToFlag axis_idx False \<noteq> 0 then vec3_set v1 axis_idx 1
                else v1)
       [0, 1, 2] scale"

definition ContinueScale ::
  "ImGuiIO \<Rightarrow> (int \<Rightarrow> float) option \<Rightarrow> ImGuizmoContext \<Rightarrow> ImGuizmoWidget \<Rightarrow>
     ImGuizmoWidget option" where
  "ContinueScale io snap g gizmo =
     (let position = xyz (mat4_col (ModelMatrix gizmo) 3);
          len = IntersectRayPlane (Ray g) (TranslationPlane gizmo);
          target_position = vec3_add (Origin (Ray g)) (vec3_mul (Direction (Ray g)) len);
          new_position =
            vec3_sub target_position (vec3_mul (ModelRelativeOrigin gizmo) (ScreenFactor gizmo));
          free_delta = vec3_sub new_position position;
          hover_flags = ActiveManipulationFlags gizmo
      in do { dragged \<leftarrow>
                (if HasSingleAxis hover_flags then
                   do { let axis_idx = GetAxisIdx hover_flags False;
                        let axis_dir = xyz (mat4_col (ModelMatrix gizmo) axis_idx);
                        let length_on_axis = dot3 axis_dir free_delta;
                        let delta = vec3_mul axis_dir length_on_axis;
                        let base_vec = vec3_sub (TranslationPlaneOrigin gizmo) position;
                        ratio \<leftarrow>
                          float_div (dot3 axis_dir (vec3_add base_vec delta))
                            (dot3 axis_dir base_vec);
                        Some (vec3_set (Scale gizmo) axis_idx (max ratio (1 / 1000))) }
                 else
                   let scale_delta = (x2 (MousePos io) - x2 (DragOrigin g)) * (1 / 100)
                   in Some (vec3_splat (max (1 + scale_delta) (1 / 1000))));
              let snapped =
                    (case snap of
                       None \<Rightarrow> dragged
                     | Some steps \<Rightarrow> CalculateSnap3 dragged (\<lambda>axis_idx. steps 0));
              let scale = clamp_and_lock_scale (LockedAxesFlags gizmo) snapped;
              let gizmo1 =
                    (if LastScale gizmo \<noteq> scale
                       then gizmo\<lparr> ModelMatrix :=
                                      mat4_mul (ModelMatrix gizmo)
                                        (glm_scale (vec3_cmul scale (ScaleValueOrigin gizmo))),
                                   Dirty := True \<rparr>
                     else gizmo);
              Some (gizmo1\<lparr> Scale := scale, LastScale := scale \<rparr>) })"

section \<open>Public interface\<close>

definition SetConfigFlags :: "ImGuizmoConfigFlags \<Rightarrow> ImGuizmoContext \<Rightarrow> ImGuizmoContext" where
  "SetConfigFlags flags g = g\<lparr> ConfigFlags := flags \<rparr>"

definition SetCamera ::
  "mat4 \<Rightarrow> mat4 \<Rightarrow> bool \<Rightarrow> ImGuizmoContext \<Rightarrow> error + ImGuizmoContext" where
  "SetCamera view_matrix projection_matrix is_ortho g =
     (case glm_inverse view_matrix of
        None \<Rightarrow> Inl NotFinite
      | Some inversed_view_matrix \<Rightarrow>
          Inr (g\<lparr> Camera :=
                    \<lparr> IsOrtho = is_ortho,
                      ViewMatrix = view_matrix,
                      ProjectionMatrix = projection_matrix,
                      ViewProjectionMatrix = mat4_mul projection_matrix view_matrix,
                      Right = xyz (col0 inversed_view_matrix),
                      Up = xyz (col1 inversed_view_matrix),
                      Forward = xyz (col2 inversed_view_matrix),
                      Eye = xyz (col3 inversed_view_matrix) \<rparr> \<rparr>))"

definition CalculateViewport :: "ImGuiIO \<Rightarrow> ImRect" where
  "CalculateViewport io =
     (let position = vec2_add (WindowPos io) (WindowContentRegionMin io);
          size = vec2_sub (WindowContentRegionMax io) (WindowContentRegionMin io)
      in \<lparr> Min_rect = position, Max_rect = vec2_add position size \<rparr>)"

text \<open>
  \<^verbatim>\<open>Begin\<close>. The widget of a matrix is found, or created, under the identifier
  obtained by truncating the matrix's address to 32 bits. The ranking of the planes
  by visibility, which only rendering and the bounds hit-test read, is left out.
\<close>

definition ImGuizmo_Begin ::
  "ImGuiIO \<Rightarrow> memory \<Rightarrow> ImGuizmoMode \<Rightarrow> addr \<Rightarrow> ImGuizmoAxisFlags \<Rightarrow> ImGuizmoContext \<Rightarrow>
     error + (bool \<times> ImGuizmoContext)" where
  "ImGuizmo_Begin io mem mode model_matrix locked_axes g =
     (if model_matrix = 0 then Inl AssertionFailed
      else if LockedModelMatrix g \<noteq> 0 then Inl AssertionFailed
      else
        let g1 = g\<lparr> LockedModelMatrix := model_matrix, Viewport := CalculateViewport io \<rparr>;
            ident = (ucast model_matrix :: ImGuiID);
            found = FindOrCreateGizmo g1 ident;
            g2 = g1\<lparr> CurrentGizmo := Some ident \<rparr>;
            g3 = (if \<not> MouseDown io 0
                    then g2\<lparr> DragOrigin := Vec2 0 0, ActiveGizmo := None \<rparr>
                  else g2);
            gizmo1 = (if \<not> MouseDown io 0
                        then found\<lparr> ActiveManipulationFlags := ImGuizmoAxisFlags_None \<rparr>
                      else found);
            idle = (ActiveManipulationFlags gizmo1 = 0);
            gizmo2 = (if idle then gizmo1\<lparr> ActiveOperation := ImGuizmoOperation_None \<rparr>
                      else gizmo1);
            g4 = (if idle
                    then g3\<lparr> Bounds := (Bounds g3)\<lparr> ActivePlane := - 1, ActiveBoundIdx := - 1 \<rparr> \<rparr>
                  else g3)
        in case Load g4 (mem model_matrix) (gizmo2\<lparr> Mode := mode \<rparr>) of
             None \<Rightarrow> Inl NotFinite
           | Some gizmo3 \<Rightarrow>
               (case RayCast io (ViewProjectionMatrix (Camera g4)) (Viewport g4) of
                  None \<Rightarrow> Inl NotFinite
                | Some ray \<Rightarrow>
                    let gizmo4 = gizmo3\<lparr> LockedAxesFlags := locked_axes \<rparr>;
                        g5 = g4\<lparr> Ray := ray \<rparr>;
                        camera_space_position =
                          xyz (mat4_mul_vec (ModelViewProjMatrix gizmo4) (Vec4 0 0 0 1))
                    in Inr (if IsOrtho (Camera g5) then True
                            else z3 camera_space_position \<ge> 1 / 1000,
                            store_gizmo gizmo4 g5)))"

text \<open>
  \<^verbatim>\<open>End\<close> writes through \<^verbatim>\<open>LockedModelMatrix\<close> into the caller's memory and returns
  \<^verbatim>\<open>updated\<close>. \<open>cancel_requested\<close> is the condition of its first \<^verbatim>\<open>if\<close>: reversing
  is configured, the right mouse button was clicked, and a manipulation is active.
\<close>

definition cancel_requested :: "ImGuiIO \<Rightarrow> ImGuizmoContext \<Rightarrow> ImGuizmoWidget \<Rightarrow> bool" where
  "cancel_requested io g gizmo \<longleftrightarrow>
     ConfigFlags g AND ImGuizmoConfigFlags_HasReversing \<noteq> 0 \<and> MouseClicked io 1 \<and>
     ActiveManipulationFlags gizmo \<noteq> 0"

definition ImGuizmo_End ::
  "ImGuiIO \<Rightarrow> ImGuizmoContext \<Rightarrow> memory \<Rightarrow> error + (bool \<times> ImGuizmoContext \<times> memory)" where
  "ImGuizmo_End io g mem =
     (if LockedModelMatrix g = 0 then Inl AssertionFailed
      else case GetCurrentGizmo g of
        None \<Rightarrow> Inl NullPointer
      | Some gizmo \<Rightarrow>
          let gizmo1 =
                (if cancel_requested io g gizmo
                   then gizmo\<lparr> ModelMatrix := BackupModelMatrix g,
                               Dirty := True,
                               ActiveManipulationFlags := ImGuizmoAxisFlags_None \<rparr>
                 else gizmo);
              updated = Dirty gizmo1;
              mem1 = (if updated then mem(LockedModelMatrix g := ModelMatrix gizmo1) else mem);
              gizmo2 = (if updated then gizmo1\<lparr> Dirty := False \<rparr> else gizmo1)
          in Inr (updated, (store_gizmo gizmo2 g)\<lparr> LockedModelMatrix := 0 \<rparr>, mem1))"

text \<open>
  \<^verbatim>\<open>Translate\<close>, \<^verbatim>\<open>Rotate\<close> and \<^verbatim>\<open>Scale\<close>. The hover query that opens each of
  them (\<^verbatim>\<open>FindTranslationHover\<close>, \<^verbatim>\<open>FindRotationHover\<close>, \<^verbatim>\<open>FindScaleHover\<close>)
  hit-tests the handles on the host's screen; it reads the context and changes
  nothing, and is a parameter here. Rendering, which follows the drag in each of
  them, writes to the host's draw list only.
\<close>

definition ImGuizmo_Translate ::
  "(ImGuizmoContext \<Rightarrow> ImGuizmoAxisFlags) \<Rightarrow> ImGuiIO \<Rightarrow> (int \<Rightarrow> float) option \<Rightarrow>
     ImGuizmoContext \<Rightarrow> error + ImGuizmoContext" where
  "ImGuizmo_Translate FindTranslationHover io snap g =
     (case GetCurrentGizmo g of
        None \<Rightarrow> Inl NullPointer
      | Some gizmo \<Rightarrow>
          (case GizmoBehavior io ImGuizmoOperation_Translate (FindTranslationHover g) (g, gizmo) of
             Inl e \<Rightarrow> Inl e
           | Inr (pressed, held, hover_flags, st) \<Rightarrow>
               (case (if pressed then BeginTranslation io st else Some st) of
                  None \<Rightarrow> Inl NotFinite
                | Some (g1, gizmo1) \<Rightarrow>
                    (case (if held then ContinueTranslation snap g1 gizmo1 else Some gizmo1) of
                       None \<Rightarrow> Inl NotFinite
                     | Some gizmo2 \<Rightarrow> Inr (store_gizmo gizmo2 g1)))))"

definition ImGuizmo_Rotate ::
  "(ImGuizmoContext \<Rightarrow> ImGuizmoAxisFlags) \<Rightarrow> ImGuiIO \<Rightarrow> (int \<Rightarrow> float) option \<Rightarrow>
     ImGuizmoContext \<Rightarrow> error + ImGuizmoContext" where
  "ImGuizmo_Rotate FindRotationHover io snap g =
     (case GetCurrentGizmo g of
        None \<Rightarrow> Inl NullPointer
      | Some gizmo \<Rightarrow>
          (case GizmoBehavior io ImGuizmoOperation_Rotate (FindRotationHover g) (g, gizmo) of
             Inl e \<Rightarrow> Inl e
           | Inr (pressed, held, hover_flags, st) \<Rightarrow>
               (case (if pressed then BeginRotation io st else Some st) of
                  None \<Rightarrow> Inl NotFinite
                | Some (g1, gizmo1) \<Rightarrow>
                    (case (if held then ContinueRotation snap g1 gizmo1 else Some gizmo1) of
                       None \<Rightarrow> Inl NotFinite
                     | Some gizmo2 \<Rightarrow> Inr (store_gizmo gizmo2 g1)))))"

definition ImGuizmo_Scale ::
  "(ImGuizmoContext \<Rightarrow> ImGuizmoAxisFlags) \<Rightarrow> ImGuiIO \<Rightarrow> (int \<Rightarrow> float) option \<Rightarrow>
     ImGuizmoContext \<Rightarrow> error + ImGuizmoContext" where
  "ImGuizmo_Scale FindScaleHover io snap g =
     (case GetCurrentGizmo g of
        None \<Rightarrow> Inl NullPointer
      | Some gizmo \<Rightarrow>
          (case GizmoBehavior io ImGuizmoOperation_Scale (FindScaleHover g) (g, gizmo) of
             Inl e \<Rightarrow> Inl e
           | Inr (pressed, held, hover_flags, st) \<Rightarrow>
               (case (if pressed then BeginScale io st else Some st) of
                  None \<Rightarrow> Inl NotFinite
                | Some (g1, gizmo1) \<Rightarrow>
                    (case (if held then ContinueScale io snap g1 gizmo1 else Some gizmo1) of
                       None \<Rightarrow> Inl NotFinite
                     | Some gizmo2 \<Rightarrow> Inr (store_gizmo gizmo2 g1)))))"

text \<open>The three hover queries, bundled for \<^verbatim>\<open>Manipulate\<close>.\<close>

record HoverQueries =
  FindTranslationHover :: "ImGuizmoContext \<Rightarrow> ImGuizmoAxisFlags"
  FindRotationHover :: "ImGuizmoContext \<Rightarrow> ImGuizmoAxisFlags"
  FindScaleHover :: "ImGuizmoContext \<Rightarrow> ImGuizmoAxisFlags"

text \<open>
  \<^verbatim>\<open>Manipulate\<close>: \<^verbatim>\<open>Begin\<close> with the default \<^verbatim>\<open>locked_axes\<close>, the \<^verbatim>\<open>switch\<close> over
  the operation when the gizmo is visible, then \<^verbatim>\<open>End\<close>.
\<close>

definition ImGuizmo_Manipulate ::
  "HoverQueries \<Rightarrow> ImGuiIO \<Rightarrow> ImGuizmoMode \<Rightarrow> ImGuizmoOperation \<Rightarrow> addr \<Rightarrow>
     (int \<Rightarrow> float) option \<Rightarrow> ImGuizmoContext \<Rightarrow> memory \<Rightarrow>
     error + (bool \<times> ImGuizmoContext \<times> memory)" where
  "ImGuizmo_Manipulate hq io mode operation model_matrix snap g mem =
     (case ImGuizmo_Begin io mem mode model_matrix ImGuizmoAxisFlags_None g of
        Inl e \<Rightarrow> Inl e
      | Inr (visible, g1) \<Rightarrow>
          (case (if visible then
                   (if operation = ImGuizmoOperation_Translate
                      then ImGuizmo_Translate (FindTranslationHover hq) io snap g1
                    else if operation = ImGuizmoOperation_Rotate
                      then ImGuizmo_Rotate (FindRotationHover hq) io snap g1
                    else if operation = ImGuizmoOperation_Scale
                      then ImGuizmo_Scale (FindScaleHover hq) io snap g1
                    else Inr g1)
                 else Inr g1) of
             Inl e \<Rightarrow> Inl e
           | Inr g2 \<Rightarrow> ImGuizmo_End io g2 mem))"

text \<open>
  A frame of an application that shows the rotation gizmo with some axes locked:
  \<^verbatim>\<open>if (Begin(mode, model_matrix, locked_axes)) Rotate(snap); End();\<close>
\<close>

definition Begin_Rotate_End ::
  "(ImGuizmoContext \<Rightarrow> ImGuizmoAxisFlags) \<Rightarrow> ImGuiIO \<Rightarrow> ImGuizmoMode \<Rightarrow> addr \<Rightarrow>
     ImGuizmoAxisFlags \<Rightarrow> (int \<Rightarrow> float) option \<Rightarrow> ImGuizmoContext \<Rightarrow> memory \<Rightarrow>
     error + (bool \<times> ImGuizmoContext \<times> memory)" where
  "Begin_Rotate_End hover io mode model_matrix locked_axes snap g mem =
     (case ImGuizmo_Begin io mem mode model_matrix locked_axes g of
        Inl e \<Rightarrow> Inl e
      | Inr (visible, g1) \<Rightarrow>
          (case (if visible then ImGuizmo_Rotate hover io snap g1 else Inr g1) of
             Inl e \<Rightarrow> Inl e
           | Inr g2 \<Rightarrow> ImGuizmo_End io g2 mem))"





section \<open>The explicit sequence\<close>

text \<open>
  What the documentation of \<^verbatim>\<open>Manipulate\<close> describes, written from its words and not
  from its body: call \<^verbatim>\<open>Begin\<close> with the mode and the matrix; when \<^verbatim>\<open>Begin\<close> returned
  true, call the one of \<^verbatim>\<open>Translate\<close>, \<^verbatim>\<open>Rotate\<close>, \<^verbatim>\<open>Scale\<close> that the operation
  names, with the shared snap; then call \<^verbatim>\<open>End\<close>, whose result is the result.
\<close>

definition manipulation_named ::
  "HoverQueries \<Rightarrow> ImGuiIO \<Rightarrow> ImGuizmoOperation \<Rightarrow> (int \<Rightarrow> float) option \<Rightarrow>
     (ImGuizmoContext \<Rightarrow> error + ImGuizmoContext) option" where
  "manipulation_named hq io operation snap =
     (if operation = ImGuizmoOperation_Translate
        then Some (ImGuizmo_Translate (FindTranslationHover hq) io snap)
      else if operation = ImGuizmoOperation_Rotate
        then Some (ImGuizmo_Rotate (FindRotationHover hq) io snap)
      else if operation = ImGuizmoOperation_Scale
        then Some (ImGuizmo_Scale (FindScaleHover hq) io snap)
      else None)"

definition Begin_manipulation_End ::
  "HoverQueries \<Rightarrow> ImGuiIO \<Rightarrow> ImGuizmoMode \<Rightarrow> ImGuizmoOperation \<Rightarrow> addr \<Rightarrow>
     (int \<Rightarrow> float) option \<Rightarrow> ImGuizmoContext \<Rightarrow> memory \<Rightarrow>
     error + (bool \<times> ImGuizmoContext \<times> memory)" where
  "Begin_manipulation_End hq io mode operation model_matrix snap g mem =
     (case ImGuizmo_Begin io mem mode model_matrix ImGuizmoAxisFlags_None g of
        Inl e \<Rightarrow> Inl e
      | Inr (False, after_begin) \<Rightarrow> ImGuizmo_End io after_begin mem
      | Inr (True, after_begin) \<Rightarrow>
          (case manipulation_named hq io operation snap of
             None \<Rightarrow> ImGuizmo_End io after_begin mem
           | Some manipulation \<Rightarrow>
               (case manipulation after_begin of
                  Inl e \<Rightarrow> Inl e
                | Inr after_manipulation \<Rightarrow> ImGuizmo_End io after_manipulation mem)))"

section \<open>Example frames\<close>

text \<open>
  Concrete inputs at which the theorems below are instantiated. The model matrix
  \<open>example_model\<close> is a quarter turn about the z axis, scaled by 2 and moved to
  \<open>(5, 6, 7)\<close>; every address of \<open>example_memory\<close> holds it.
\<close>

definition example_io :: ImGuiIO where
  "example_io =
     \<lparr> MousePos = Vec2 400 300,
       MouseDown = (\<lambda>button. False),
       MouseClicked = (\<lambda>button. False),
       WindowPos = Vec2 0 0,
       WindowContentRegionMin = Vec2 0 0,
       WindowContentRegionMax = Vec2 800 600 \<rparr>"

definition example_model :: mat4 where
  "example_model = Mat4 (Vec4 0 2 0 0) (Vec4 (- 2) 0 0 0) (Vec4 0 0 2 0) (Vec4 5 6 7 1)"

definition example_memory :: memory where
  "example_memory = (\<lambda>a. example_model)"

text \<open>
  A rotation drag with the x axis locked, in two frames. The camera is
  orthographic and looks along the x axis from \<open>(6, 6, 7)\<close>: \<open>side_scene\<close> is the
  initial context after \<^verbatim>\<open>SetCamera\<close> with the view matrix \<open>side_view\<close>. The caller's
  matrix is the translation to \<open>(5, 6, 7)\<close>. The viewport is 800 by 600 pixels.
\<close>

definition side_view :: mat4 where
  "side_view = Mat4 (Vec4 0 0 (- 1) 0) (Vec4 0 1 0 0) (Vec4 1 0 0 0) (Vec4 (- 7) (- 6) 6 1)"

definition side_scene :: ImGuizmoContext where
  "side_scene =
     GImGuizmo\<lparr> Camera :=
                   \<lparr> IsOrtho = True,
                     ViewMatrix = side_view,
                     ProjectionMatrix = mat4_identity,
                     ViewProjectionMatrix = side_view,
                     Right = Vec3 0 0 1, Up = Vec3 0 1 0, Forward = Vec3 (- 1) 0 0,
                     Eye = Vec3 6 6 7 \<rparr> \<rparr>"

definition moved_memory :: memory where
  "moved_memory = (\<lambda>a. glm_translate (Vec3 5 6 7))"

text \<open>
  In the first frame the left button is clicked at the pixel \<open>(400, 256)\<close>. The model
  is drawn at the centre \<open>(400, 300)\<close> of the viewport and the screen ring has the
  radius \<open>0.1 * 800 * 0.55 = 44\<close>, so the click is on the ring: the hover query
  answers \<^verbatim>\<open>ImGuizmoAxisFlags_ALL\<close>, which it does unless all three axes are locked.
  The mouse ray \<open>press_ray\<close> meets the plane \<open>x = 5\<close> through the model straight
  above the model. In the second frame the button is held and the mouse is at the
  bottom of the viewport; its ray \<open>example_ray\<close> meets the plane at \<open>(5, 5, 7)\<close>,
  straight below the model, half a turn further.
\<close>

definition press_io :: ImGuiIO where
  "press_io =
     example_io\<lparr> MousePos := Vec2 400 256,
                  MouseDown := (\<lambda>button. button = 0),
                  MouseClicked := (\<lambda>button. button = 0) \<rparr>"

definition drag_io :: ImGuiIO where
  "drag_io = example_io\<lparr> MousePos := Vec2 400 600, MouseDown := (\<lambda>button. button = 0) \<rparr>"

definition shrink_io :: ImGuiIO where
  "shrink_io = drag_io\<lparr> MousePos := Vec2 (- 100) 300 \<rparr>"

definition ring_hover :: "ImGuizmoContext \<Rightarrow> ImGuizmoAxisFlags" where
  "ring_hover = (\<lambda>g. ImGuizmoAxisFlags_ALL)"

definition press_ray :: ImGuizmoRay where
  "press_ray =
     \<lparr> Origin = Vec3 6 (461 / 75) 7, End = Vec3 (5 + kEpsilon) (461 / 75) 7,
       Direction = Vec3 (- 1) 0 0 \<rparr>"

definition example_ray :: ImGuizmoRay where
  "example_ray =
     \<lparr> Origin = Vec3 6 5 7, End = Vec3 (5 + kEpsilon) 5 7, Direction = Vec3 (- 1) 0 0 \<rparr>"

text \<open>
  The widget after the first frame, which is the widget in the second frame when
  \<^verbatim>\<open>Begin\<close> has loaded the matrix again: the drag is active on the ring, its plane is
  \<open>x = 5\<close> and its reference direction is the y axis.
\<close>

definition example_rotating :: ImGuizmoWidget where
  "example_rotating =
     (ImGuizmoWidget_new 4096)
       \<lparr> SourceModelMatrix := glm_translate (Vec3 5 6 7),
         ModelMatrix := glm_translate (Vec3 5 6 7),
         InversedModelMatrix := glm_translate (Vec3 (- 5) (- 6) (- 7)),
         ModelViewProjMatrix :=
           Mat4 (Vec4 0 0 (- 1) 0) (Vec4 0 1 0 0) (Vec4 1 0 0 0) (Vec4 0 0 1 1),
         ActiveOperation := ImGuizmoOperation_Rotate,
         ActiveManipulationFlags := ImGuizmoAxisFlags_ALL,
         LockedAxesFlags := ImGuizmoAxisFlags_X,
         ScreenFactor := 1 / 10,
         TranslationPlane := Vec4 1 0 0 5,
         RotationVectorSource := Vec3 0 1 0,
         RotationAngle := 0,
         RotationAngleOrigin := 0 \<rparr>"

text \<open>The context between the two frames, and in the second frame after \<^verbatim>\<open>Begin\<close>.\<close>

definition example_between :: ImGuizmoContext where
  "example_between =
     side_scene\<lparr> Viewport := \<lparr> Min_rect = Vec2 0 0, Max_rect = Vec2 800 600 \<rparr>,
                  Ray := press_ray,
                  DragOrigin := Vec2 400 256,
                  GizmosById := [4096 \<mapsto> example_rotating],
                  CurrentGizmo := Some 4096,
                  ActiveGizmo := Some 4096,
                  BackupModelMatrix := glm_translate (Vec3 5 6 7) \<rparr>"

definition example_context :: ImGuizmoContext where
  "example_context = example_between\<lparr> Ray := example_ray, LockedModelMatrix := 4096 \<rparr>"

text \<open>
  The widget after the step of the second frame: the model is turned half a turn
  about the x axis, and the widget is dirty.
\<close>

definition example_turned :: ImGuizmoWidget where
  "example_turned =
     example_rotating
       \<lparr> ModelMatrix :=
           Mat4 (Vec4 1 0 0 0) (Vec4 0 (- 1) 0 0) (Vec4 0 0 (- 1) 0) (Vec4 5 6 7 1),
         Dirty := True,
         RotationAngle := - pi,
         RotationAngleOrigin := - pi \<rparr>"



text \<open>
  The widget after a step of a scale drag on all axes with the mouse of \<open>shrink_io\<close>,
  500 pixels left of the drag origin: the drag asks for a scale of \<open>-4\<close>, which
  becomes \<open>1/1000\<close> on y and z and \<open>1\<close> on the locked x.
\<close>

definition example_shrunk :: ImGuizmoWidget where
  "example_shrunk =
     example_rotating
       \<lparr> ModelMatrix :=
           Mat4 (Vec4 1 0 0 0) (Vec4 0 (1 / 1000) 0 0) (Vec4 0 0 (1 / 1000) 0) (Vec4 5 6 7 1),
         Dirty := True,
         Scale := Vec3 1 (1 / 1000) (1 / 1000),
         LastScale := Vec3 1 (1 / 1000) (1 / 1000) \<rparr>"

text \<open>
  A scale drag on all axes, in World mode, of a caller's matrix \<open>flat_model\<close> whose
  y column is zero. \<open>flat_scaling\<close> is the widget of the drag: its model matrix is
  the translation that \<open>Load\<close> gives in World mode and its \<^verbatim>\<open>ScaleValueOrigin\<close> holds
  the lengths \<open>1, 0, 1\<close> of the caller's axis columns, as \<^verbatim>\<open>BeginScale\<close> records them.
  With \<open>grow_io\<close> the mouse is 100 pixels right of the drag origin, which asks for a
  scale of \<open>2\<close>.
\<close>

definition flat_model :: mat4 where
  "flat_model = Mat4 (Vec4 1 0 0 0) (Vec4 0 0 0 0) (Vec4 0 0 1 0) (Vec4 5 6 7 1)"

definition flat_scaling :: ImGuizmoWidget where
  "flat_scaling =
     example_rotating
       \<lparr> SourceModelMatrix := flat_model,
         Mode := ImGuizmoMode_World,
         ActiveOperation := ImGuizmoOperation_Scale,
         LockedAxesFlags := ImGuizmoAxisFlags_None,
         ModelScaleOrigin := Vec3 1 0 1,
         ScaleValueOrigin := Vec3 1 0 1 \<rparr>"

definition grow_io :: ImGuiIO where
  "grow_io = drag_io\<lparr> MousePos := Vec2 500 300 \<rparr>"

text \<open>
  The widget and the context in the first frame after \<^verbatim>\<open>Begin\<close>: the matrix is
  loaded and the x axis is locked, and no drag is active yet.
\<close>

definition press_widget :: ImGuizmoWidget where
  "press_widget =
     example_rotating
       \<lparr> ActiveOperation := ImGuizmoOperation_None,
         ActiveManipulationFlags := ImGuizmoAxisFlags_None,
         TranslationPlane := Vec4 0 0 0 0,
         RotationVectorSource := Vec3 0 0 0 \<rparr>"

definition press_context :: ImGuizmoContext where
  "press_context =
     example_between
       \<lparr> LockedModelMatrix := 4096, DragOrigin := Vec2 0 0, ActiveGizmo := None,
         BackupModelMatrix := mat4_identity,
         GizmosById := [4096 \<mapsto> press_widget] \<rparr>"

text \<open>
  A drag that is being cancelled: between two frames, outside \<^verbatim>\<open>Begin\<close> and
  \<^verbatim>\<open>End\<close>, the widget of address 4096 is active and clean, reversing is configured
  and the backup is the identity; in the frame the left button is still down and
  the right button is clicked. No handle is hovered.
\<close>

definition cancel_io :: ImGuiIO where
  "cancel_io =
     example_io\<lparr> MouseDown := (\<lambda>button. button = 0), MouseClicked := (\<lambda>button. button = 1) \<rparr>"

definition cancel_widget :: ImGuizmoWidget where
  "cancel_widget =
     (ImGuizmoWidget_new 4096)
       \<lparr> ActiveOperation := ImGuizmoOperation_Translate,
         ActiveManipulationFlags := ImGuizmoAxisFlags_X \<rparr>"

definition cancel_context :: ImGuizmoContext where
  "cancel_context =
     GImGuizmo\<lparr> ConfigFlags := ImGuizmoConfigFlags_HasReversing,
                 GizmosById := [4096 \<mapsto> cancel_widget],
                 CurrentGizmo := Some 4096,
                 ActiveGizmo := Some 4096 \<rparr>"

definition no_hover :: HoverQueries where
  "no_hover =
     \<lparr> FindTranslationHover = (\<lambda>g. ImGuizmoAxisFlags_None),
       FindRotationHover = (\<lambda>g. ImGuizmoAxisFlags_None),
       FindScaleHover = (\<lambda>g. ImGuizmoAxisFlags_None) \<rparr>"






section \<open>Indexing\<close>

lemma mat4_col_simps [simp]:
  "mat4_col m 0 = col0 m" "mat4_col m 1 = col1 m" "mat4_col m 2 = col2 m" "mat4_col m 3 = col3 m"
  by (simp_all add: mat4_col_def)

lemma mat4_set_col_simps [simp]:
  "mat4_set_col m 0 c = Mat4 c (col1 m) (col2 m) (col3 m)"
  "mat4_set_col m 1 c = Mat4 (col0 m) c (col2 m) (col3 m)"
  "mat4_set_col m 2 c = Mat4 (col0 m) (col1 m) c (col3 m)"
  "mat4_set_col m 3 c = Mat4 (col0 m) (col1 m) (col2 m) c"
  by (simp_all add: mat4_set_col_def)

lemma vec3_get_simps [simp]:
  "vec3_get v 0 = x3 v" "vec3_get v 1 = y3 v" "vec3_get v 2 = z3 v"
  by (simp_all add: vec3_get_def)

lemma vec3_set_simps [simp]:
  "vec3_set v 0 a = Vec3 a (y3 v) (z3 v)"
  "vec3_set v 1 a = Vec3 (x3 v) a (z3 v)"
  "vec3_set v 2 a = Vec3 (x3 v) (y3 v) a"
  by (simp_all add: vec3_set_def)

lemma vec4_get_simps [simp]:
  "vec4_get v 0 = x4 v" "vec4_get v 1 = y4 v" "vec4_get v 2 = z4 v" "vec4_get v 3 = w4 v"
  by (simp_all add: vec4_get_def)

lemma vec4_set_simps [simp]:
  "vec4_set v 0 a = Vec4 a (y4 v) (z4 v) (w4 v)"
  "vec4_set v 1 a = Vec4 (x4 v) a (z4 v) (w4 v)"
  "vec4_set v 2 a = Vec4 (x4 v) (y4 v) a (w4 v)"
  "vec4_set v 3 a = Vec4 (x4 v) (y4 v) (z4 v) a"
  by (simp_all add: vec4_set_def)

section \<open>Snapping rounds to the grid\<close>

lemma kEpsilon_pos: "0 < kEpsilon"
  by (simp add: kEpsilon_def)

lemma nearest_scaled:
  fixes s v :: real
  assumes "0 < s" and "\<bar>v / s - of_int k\<bar> \<le> \<bar>v / s - of_int j\<bar>"
  shows "\<bar>v - of_int k * s\<bar> \<le> \<bar>v - of_int j * s\<bar>"
proof -
  have a: "v - of_int k * s = s * (v / s - of_int k)"
    using assms(1) by (simp add: field_simps)
  have b: "v - of_int j * s = s * (v / s - of_int j)"
    using assms(1) by (simp add: field_simps)
  show ?thesis unfolding a b abs_mult using assms by (simp add: mult_left_mono)
qed

lemma within_half_is_nearest:
  fixes q :: real
  assumes "\<bar>q - of_int t\<bar> < 1 / 2"
  shows "\<bar>q - of_int t\<bar> \<le> \<bar>q - of_int j\<bar>"
proof (cases "j = t")
  case True
  then show ?thesis by simp
next
  case False
  then have "j \<le> t - 1 \<or> t + 1 \<le> j" by linarith
  then have "(of_int j :: real) \<le> of_int t - 1 \<or> (of_int t :: real) + 1 \<le> of_int j"
    by (metis of_int_le_iff of_int_add of_int_diff of_int_1)
  then show ?thesis using assms by linarith
qed

lemma fmod_ratio:
  assumes "0 < snap"
  shows "\<bar>glm_fmod val snap\<bar> / snap = \<bar>val / snap - of_int (glm_trunc (val / snap))\<bar>"
proof -
  have "glm_fmod val snap = snap * (val / snap - of_int (glm_trunc (val / snap)))"
    using assms by (simp add: glm_fmod_def field_simps)
  then show ?thesis using assms by (simp add: abs_mult)
qed

lemma half_not_int: "(1 / 2 :: real) \<notin> \<int>"
proof
  assume "(1 / 2 :: real) \<in> \<int>"
  then obtain k :: int where "(1 / 2 :: real) = of_int k" by (auto elim: Ints_cases)
  then have "(1 :: real) = of_int (2 * k)" by simp
  then have "(1 :: int) = 2 * k" using of_int_eq_iff [of 1 "2 * k", where ?'a = real] by simp
  then show False by presburger
qed

lemma snap_to_multiple:
  assumes eps: "kEpsilon < snap" and tie: "\<bar>glm_fmod val snap\<bar> / snap \<noteq> 1 / 2"
  shows "\<exists>k::int. CalculateSnap val snap = of_int k * snap \<and> \<bar>val / snap - of_int k\<bar> < 1 / 2"
proof -
  have pos: "0 < snap" using eps kEpsilon_pos by linarith
  define q where "q = val / snap"
  define t where "t = glm_trunc q"
  have ratio: "\<bar>glm_fmod val snap\<bar> / snap = \<bar>q - of_int t\<bar>"
    unfolding q_def t_def by (rule fmod_ratio [OF pos])
  have down: "val - glm_fmod val snap = of_int t * snap"
    by (simp add: glm_fmod_def q_def t_def)
  have sign: "val < 0 \<longleftrightarrow> q < 0"
    using pos by (simp add: q_def divide_less_0_iff)
  have c1: "\<not> snap \<le> kEpsilon" using eps by simp
  show ?thesis
  proof (cases "\<bar>q - of_int t\<bar> < 1 / 2")
    case True
    then have c2: "\<bar>glm_fmod val snap\<bar> / snap < 1 / 2" using ratio by simp
    have "CalculateSnap val snap = val - glm_fmod val snap"
      unfolding CalculateSnap_def Let_def by (simp only: c1 c2 if_True if_False)
    then have "CalculateSnap val snap = of_int t * snap" using down by simp
    with True show ?thesis unfolding q_def by blast
  next
    case False
    with tie ratio have big: "1 / 2 < \<bar>q - of_int t\<bar>" by linarith
    have c3: "\<not> \<bar>glm_fmod val snap\<bar> / snap < 1 / 2" using False ratio by simp
    have c4: "\<bar>glm_fmod val snap\<bar> / snap > 1 - 1 / 2" using big ratio by simp
    have up: "CalculateSnap val snap =
        val - glm_fmod val snap + snap * (if val < 0 then - 1 else 1)"
      unfolding CalculateSnap_def Let_def by (simp only: c1 c3 c4 if_True if_False)
    show ?thesis
    proof (cases "val < 0")
      case True
      then have "q < 0" using sign by simp
      then have tq: "t = \<lceil>q\<rceil>" by (simp add: t_def glm_trunc_def)
      have "CalculateSnap val snap = of_int t * snap - snap"
        using up down True by simp
      then have r: "CalculateSnap val snap = of_int (t - 1) * snap"
        by (simp add: algebra_simps)
      have "\<bar>q - of_int (t - 1)\<bar> < 1 / 2" using big unfolding tq by simp
      with r show ?thesis unfolding q_def by blast
    next
      case False
      then have "0 \<le> q" using sign by simp
      then have tq: "t = \<lfloor>q\<rfloor>" by (simp add: t_def glm_trunc_def)
      have "CalculateSnap val snap = of_int t * snap + snap"
        using up down False by simp
      then have r: "CalculateSnap val snap = of_int (t + 1) * snap"
        by (simp add: algebra_simps)
      have "\<bar>q - of_int (t + 1)\<bar> < 1 / 2" using big unfolding tq by simp
      with r show ?thesis unfolding q_def by blast
    qed
  qed
qed

text \<open>
  Claim C3, as the code has it. For a step above \<open>kEpsilon\<close>, a value whose remainder
  is not exactly half a step is set to the integer multiple of the step nearest to
  it: the result is \<open>k * snap\<close> for an integer \<open>k\<close>, and no integer multiple of the
  step is closer to the value. A value exactly half-way between two multiples falls
  between the two strict tests against \<^verbatim>\<open>snap_tension\<close> and is left as it is. For
  a step of at most \<open>kEpsilon\<close> the value is left unchanged.
\<close>

theorem C3_CalculateSnap_nearest_multiple:
  "(kEpsilon < snap \<and> \<bar>glm_fmod val snap\<bar> / snap \<noteq> 1 / 2 \<longrightarrow>
      (\<exists>k::int. CalculateSnap val snap = of_int k * snap \<and>
         (\<forall>j::int. \<bar>val - CalculateSnap val snap\<bar> \<le> \<bar>val - of_int j * snap\<bar>))) \<and>
   (kEpsilon < snap \<and> \<bar>glm_fmod val snap\<bar> / snap = 1 / 2 \<longrightarrow> CalculateSnap val snap = val) \<and>
   (snap \<le> kEpsilon \<longrightarrow> CalculateSnap val snap = val)"
proof (intro conjI impI)
  assume h: "kEpsilon < snap \<and> \<bar>glm_fmod val snap\<bar> / snap \<noteq> 1 / 2"
  then have pos: "0 < snap" using kEpsilon_pos by linarith
  from h obtain k :: int where k: "CalculateSnap val snap = of_int k * snap"
    and near: "\<bar>val / snap - of_int k\<bar> < 1 / 2"
    using snap_to_multiple by blast
  have "\<forall>j::int. \<bar>val - of_int k * snap\<bar> \<le> \<bar>val - of_int j * snap\<bar>"
    using nearest_scaled [OF pos within_half_is_nearest [OF near]] by blast
  with k show "\<exists>k::int. CalculateSnap val snap = of_int k * snap \<and>
         (\<forall>j::int. \<bar>val - CalculateSnap val snap\<bar> \<le> \<bar>val - of_int j * snap\<bar>)"
    by auto
next
  assume "kEpsilon < snap \<and> \<bar>glm_fmod val snap\<bar> / snap = 1 / 2"
  then show "CalculateSnap val snap = val" by (simp add: CalculateSnap_def Let_def)
next
  assume "snap \<le> kEpsilon"
  then show "CalculateSnap val snap = val" by (simp add: CalculateSnap_def)
qed

text \<open>
  The three cases at concrete inputs: \<open>7/10\<close> with step \<open>1\<close> is not a tie, \<open>1/2\<close>
  with step \<open>1\<close> is one, and the step \<open>0\<close> is below \<open>kEpsilon\<close>.
\<close>

theorem C3_CalculateSnap_nearest_multiple_witness:
  "(kEpsilon < 1 \<and> \<bar>glm_fmod (7 / 10) 1\<bar> / 1 \<noteq> 1 / 2 \<and>
      (\<exists>k::int. CalculateSnap (7 / 10) 1 = of_int k * 1 \<and>
         (\<forall>j::int. \<bar>7 / 10 - CalculateSnap (7 / 10) 1\<bar> \<le> \<bar>7 / 10 - of_int j * 1\<bar>))) \<and>
   (kEpsilon < 1 \<and> \<bar>glm_fmod (1 / 2) 1\<bar> / 1 = 1 / 2 \<and> CalculateSnap (1 / 2) 1 = 1 / 2) \<and>
   ((0 :: float) \<le> kEpsilon \<and> CalculateSnap (7 / 10) 0 = 7 / 10)"
proof -
  have e: "kEpsilon < 1" by (simp add: kEpsilon_def)
  have a: "\<bar>glm_fmod (7 / 10) 1\<bar> / 1 \<noteq> 1 / 2"
    by (simp add: glm_fmod_def glm_trunc_def)
  have b: "\<bar>glm_fmod (1 / 2) 1\<bar> / 1 = 1 / 2"
    by (simp add: glm_fmod_def glm_trunc_def)
  have z: "(0 :: float) \<le> kEpsilon" by (simp add: kEpsilon_def)
  show ?thesis
    using C3_CalculateSnap_nearest_multiple [of 1 "7 / 10"]
      C3_CalculateSnap_nearest_multiple [of 1 "1 / 2"]
      C3_CalculateSnap_nearest_multiple [of 0 "7 / 10"] e a b z
    by blast
qed

text \<open>
  The claim as written fails at the tie: with step \<open>1\<close> the value \<open>1/2\<close> stays
  \<open>1/2\<close>, and \<open>1/2\<close> over the step is not an integer, so the result is not an
  integer multiple of the step.
\<close>

theorem C3_CalculateSnap_tie_counterexample:
  "kEpsilon < 1 \<and> CalculateSnap (1 / 2) 1 = 1 / 2 \<and> CalculateSnap (1 / 2) 1 / 1 \<notin> \<int>"
  using half_not_int
  by (simp add: CalculateSnap_def kEpsilon_def glm_fmod_def glm_trunc_def Let_def)


section \<open>Ray and plane\<close>

text \<open>
  Claim C5. When the plane normal and the ray direction have a dot product below
  \<open>kEpsilon\<close> in absolute value, \<open>IntersectRayPlane\<close> returns \<open>-1\<close>. Otherwise the
  point \<open>Origin + Direction * t\<close> at the returned parameter \<open>t\<close> satisfies the plane
  equation \<open>dot (xyz plane) point = w plane\<close>. This is the equation by which
  \<open>BuildPlane\<close> places its point on the plane it builds, when the normal it is given
  is not the zero vector.
\<close>

theorem C5_IntersectRayPlane_on_plane:
  "(\<bar>dot3 (xyz plane) (Direction ray)\<bar> < kEpsilon \<longrightarrow> IntersectRayPlane ray plane = - 1) \<and>
   (\<not> \<bar>dot3 (xyz plane) (Direction ray)\<bar> < kEpsilon \<longrightarrow>
      dot3 (xyz plane)
        (vec3_add (Origin ray) (vec3_mul (Direction ray) (IntersectRayPlane ray plane))) =
      w4 plane) \<and>
   (\<forall>built. BuildPlane point normal = Some built \<longrightarrow> dot3 (xyz built) point = w4 built)"
proof (intro conjI impI allI)
  assume "\<bar>dot3 (xyz plane) (Direction ray)\<bar> < kEpsilon"
  then show "IntersectRayPlane ray plane = - 1"
    by (simp add: IntersectRayPlane_def Let_def)
next
  assume far: "\<not> \<bar>dot3 (xyz plane) (Direction ray)\<bar> < kEpsilon"
  define d where "d = dot3 (xyz plane) (Direction ray)"
  define n where "n = dot3 (xyz plane) (Origin ray) - w4 plane"
  have d0: "d \<noteq> 0" using far kEpsilon_pos unfolding d_def by auto
  have t: "IntersectRayPlane ray plane = - (n / d)"
    using far by (simp add: IntersectRayPlane_def Let_def d_def n_def)
  have lin: "dot3 (xyz plane) (vec3_add (Origin ray) (vec3_mul (Direction ray) s)) =
      dot3 (xyz plane) (Origin ray) + s * d" for s
    by (simp add: dot3_def vec3_add_def vec3_mul_def d_def algebra_simps)
  have "dot3 (xyz plane) (Origin ray) + (- (n / d)) * d = w4 plane"
    using d0 by (simp add: n_def)
  then show "dot3 (xyz plane)
        (vec3_add (Origin ray) (vec3_mul (Direction ray) (IntersectRayPlane ray plane))) =
      w4 plane"
    unfolding t lin .
next
  fix built
  assume "BuildPlane point normal = Some built"
  then show "dot3 (xyz built) point = w4 built"
    by (auto simp add: BuildPlane_def bind_eq_Some_conv xyz_def vec4_of_def dot3_def)
qed

text \<open>
  A ray along the plane, which does not meet it, a ray that meets the plane
  \<open>z = 2\<close> three units from its origin, and that plane as \<open>BuildPlane\<close> builds it
  from the point \<open>(0, 0, 2)\<close> and the normal \<open>(0, 0, 3)\<close>.
\<close>

theorem C5_IntersectRayPlane_on_plane_witness:
  "\<bar>dot3 (xyz (Vec4 0 0 1 2))
       (Direction \<lparr> Origin = Vec3 0 0 5, End = Vec3 1 0 5, Direction = Vec3 1 0 0 \<rparr>)\<bar> < kEpsilon \<and>
   IntersectRayPlane \<lparr> Origin = Vec3 0 0 5, End = Vec3 1 0 5, Direction = Vec3 1 0 0 \<rparr>
     (Vec4 0 0 1 2) = - 1 \<and>
   \<not> \<bar>dot3 (xyz (Vec4 0 0 1 2))
       (Direction \<lparr> Origin = Vec3 0 0 5, End = Vec3 0 0 4, Direction = Vec3 0 0 (- 1) \<rparr>)\<bar> < kEpsilon \<and>
   IntersectRayPlane \<lparr> Origin = Vec3 0 0 5, End = Vec3 0 0 4, Direction = Vec3 0 0 (- 1) \<rparr>
     (Vec4 0 0 1 2) = 3 \<and>
   dot3 (xyz (Vec4 0 0 1 2))
     (vec3_add (Origin \<lparr> Origin = Vec3 0 0 5, End = Vec3 0 0 4, Direction = Vec3 0 0 (- 1) \<rparr>)
        (vec3_mul (Direction \<lparr> Origin = Vec3 0 0 5, End = Vec3 0 0 4, Direction = Vec3 0 0 (- 1) \<rparr>)
           3)) = w4 (Vec4 0 0 1 2) \<and>
   BuildPlane (Vec3 0 0 2) (Vec3 0 0 3) = Some (Vec4 0 0 1 2) \<and>
   dot3 (xyz (Vec4 0 0 1 2)) (Vec3 0 0 2) = w4 (Vec4 0 0 1 2)"
proof -
  have b: "BuildPlane (Vec3 0 0 2) (Vec3 0 0 3) = Some (Vec4 0 0 1 2)"
    by (simp add: BuildPlane_def normalize3_def inversesqrt_def dot3_def vec3_mul_def vec4_of_def
        real_sqrt_eq_iff [of 9 "3 * 3", simplified] )
  show ?thesis
    using C5_IntersectRayPlane_on_plane
        [of "Vec4 0 0 1 2" "\<lparr> Origin = Vec3 0 0 5, End = Vec3 1 0 5, Direction = Vec3 1 0 0 \<rparr>"
            "Vec3 0 0 2" "Vec3 0 0 3"]
      C5_IntersectRayPlane_on_plane
        [of "Vec4 0 0 1 2" "\<lparr> Origin = Vec3 0 0 5, End = Vec3 0 0 4, Direction = Vec3 0 0 (- 1) \<rparr>"
            "Vec3 0 0 2" "Vec3 0 0 3"]
      b
    by (simp add: IntersectRayPlane_def Let_def dot3_def xyz_def kEpsilon_def)
qed


section \<open>Begin loads the frame of the mode\<close>

lemma inversesqrt_Some: "inversesqrt a = Some r \<longleftrightarrow> 0 < a \<and> r = 1 / sqrt a"
  by (auto simp add: inversesqrt_def)

lemma dot4_nonneg: "0 \<le> dot4 a a"
  by (simp add: dot4_def)

lemma dot4_zero: "dot4 a a = 0 \<longleftrightarrow> a = Vec4 0 0 0 0"
proof
  assume z: "dot4 a a = 0"
  have "x4 a * x4 a + y4 a * y4 a + (z4 a * z4 a + w4 a * w4 a) = 0"
    using z by (simp add: dot4_def algebra_simps)
  then have "x4 a = 0 \<and> y4 a = 0 \<and> z4 a = 0 \<and> w4 a = 0"
    by (simp add: add_nonneg_eq_0_iff)
  then show "a = Vec4 0 0 0 0" by (cases a) simp
next
  assume "a = Vec4 0 0 0 0"
  then show "dot4 a a = 0" by (simp add: dot4_def)
qed

text \<open>
  \<open>normalize4\<close> has a value exactly for a vector that is not zero, and the value has
  length \<open>1\<close>.
\<close>

lemma normalize4_Some:
  "normalize4 a = Some c \<longleftrightarrow> a \<noteq> Vec4 0 0 0 0 \<and> c = vec4_mul a (1 / length4 a)"
proof -
  have "0 < dot4 a a \<longleftrightarrow> a \<noteq> Vec4 0 0 0 0"
    using dot4_nonneg [of a] dot4_zero [of a] by linarith
  then show ?thesis
    by (auto simp add: normalize4_def bind_eq_Some_conv inversesqrt_Some length4_def)
qed

lemma normalize4_None: "normalize4 a = None \<longleftrightarrow> a = Vec4 0 0 0 0"
  using normalize4_Some [of a] by (cases "normalize4 a") auto

lemma length4_scaled: "length4 (vec4_mul a s) = \<bar>s\<bar> * length4 a"
proof -
  have "dot4 (vec4_mul a s) (vec4_mul a s) = s * s * dot4 a a"
    by (simp add: dot4_def vec4_mul_def algebra_simps)
  then show ?thesis by (simp add: length4_def real_sqrt_mult)
qed


lemma normalize_axes_eq:
  "normalize_axes m =
     do { c0 \<leftarrow> normalize4 (col0 m);
          c1 \<leftarrow> normalize4 (col1 m);
          c2 \<leftarrow> normalize4 (col2 m);
          Some (Mat4 c0 c1 c2 (col3 m)) }"
  by (cases "normalize4 (col0 m)"; cases "normalize4 (col1 m)"; cases "normalize4 (col2 m)")
     (simp_all add: normalize_axes_def)


lemma axis_lengths_eq:
  "axis_lengths m v = Vec3 (length4 (col0 m)) (length4 (col1 m)) (length4 (col2 m))"
  by (simp add: axis_lengths_def)

lemma Load_Some:
  assumes "Load g model gizmo = Some loaded"
  shows "SourceModelMatrix loaded = model"
    and "Mode gizmo = ImGuizmoMode_Local \<Longrightarrow> normalize_axes model = Some (ModelMatrix loaded)"
    and "Mode gizmo \<noteq> ImGuizmoMode_Local \<Longrightarrow>
           ModelMatrix loaded = glm_translate (xyz (col3 model))"
    and "glm_inverse (ModelMatrix loaded) = Some (InversedModelMatrix loaded)"
    and "ModelScaleOrigin loaded = axis_lengths model (ModelScaleOrigin gizmo)"
    and "ID loaded = ID gizmo" and "Mode loaded = Mode gizmo" and "Dirty loaded = Dirty gizmo"
    and "ActiveManipulationFlags loaded = ActiveManipulationFlags gizmo"
    and "ActiveOperation loaded = ActiveOperation gizmo"
  using assms
  by (auto simp add: Load_def Let_def bind_eq_Some_conv split: if_splits)


lemma FindOrCreateGizmo_cong [simp]:
  "FindOrCreateGizmo (g\<lparr> LockedModelMatrix := a, Viewport := v \<rparr>) i = FindOrCreateGizmo g i"
  by (simp add: FindOrCreateGizmo_def)

lemma Begin_current:
  assumes "ImGuizmo_Begin io mem mode model_matrix locked_axes g = Inr (visible, g')"
  shows "\<exists>gizmo. GetCurrentGizmo g' = Some gizmo \<and>
           Mode gizmo = mode \<and>
           LockedAxesFlags gizmo = locked_axes \<and>
           SourceModelMatrix gizmo = mem model_matrix \<and>
           (mode = ImGuizmoMode_Local \<longrightarrow>
              normalize_axes (mem model_matrix) = Some (ModelMatrix gizmo)) \<and>
           (mode \<noteq> ImGuizmoMode_Local \<longrightarrow>
              ModelMatrix gizmo = glm_translate (xyz (col3 (mem model_matrix)))) \<and>
           Dirty gizmo = Dirty (FindOrCreateGizmo g (ucast model_matrix)) \<and>
           ActiveManipulationFlags gizmo =
             (if MouseDown io 0
                then ActiveManipulationFlags (FindOrCreateGizmo g (ucast model_matrix))
              else 0)"
proof -
  define found where "found = FindOrCreateGizmo g (ucast model_matrix)"
  define gizmo1 where
    "gizmo1 = (if \<not> MouseDown io 0
                 then found\<lparr> ActiveManipulationFlags := ImGuizmoAxisFlags_None \<rparr> else found)"
  define gizmo2 where
    "gizmo2 = (if ActiveManipulationFlags gizmo1 = 0
                 then gizmo1\<lparr> ActiveOperation := ImGuizmoOperation_None \<rparr> else gizmo1)"
  from assms obtain g5 gizmo3 where
    l: "Load g5 (mem model_matrix) (gizmo2\<lparr> Mode := mode \<rparr>) = Some gizmo3"
    and c: "GetCurrentGizmo g' = Some (gizmo3\<lparr> LockedAxesFlags := locked_axes \<rparr>)"
    by (auto simp add: ImGuizmo_Begin_def Let_def GetCurrentGizmo_def store_gizmo_def
          found_def gizmo1_def gizmo2_def
        split: if_splits option.splits)
  have d: "Dirty gizmo2 = Dirty found" "ActiveManipulationFlags gizmo2 =
      (if MouseDown io 0 then ActiveManipulationFlags found else 0)"
    by (simp_all add: gizmo2_def gizmo1_def ImGuizmoAxisFlags_None_def)
  show ?thesis
    using c Load_Some [OF l] d by (simp add: found_def)
qed

lemma Begin_context:
  assumes "ImGuizmo_Begin io mem mode model_matrix locked_axes g = Inr (visible, g')"
  shows "LockedModelMatrix g' = model_matrix \<and> BackupModelMatrix g' = BackupModelMatrix g \<and>
         ConfigFlags g' = ConfigFlags g \<and> CurrentGizmo g' = Some (ucast model_matrix)"
  using assms
  by (auto simp add: ImGuizmo_Begin_def Let_def store_gizmo_def split: if_splits option.splits)



text \<open>
  \<open>example_model\<close> under the initial camera, in both modes: Local keeps the quarter
  turn and drops the scale, World keeps the translation only.
\<close>

lemma sqrt_square: "0 \<le> a \<Longrightarrow> sqrt (a * a) = a"
  by (simp add: real_sqrt_mult_self)

lemma normalize4_axis:
  "0 < a \<Longrightarrow> normalize4 (Vec4 a 0 0 0) = Some (Vec4 1 0 0 0)"
  "a < 0 \<Longrightarrow> normalize4 (Vec4 a 0 0 0) = Some (Vec4 (- 1) 0 0 0)"
  "0 < a \<Longrightarrow> normalize4 (Vec4 0 a 0 0) = Some (Vec4 0 1 0 0)"
  "0 < a \<Longrightarrow> normalize4 (Vec4 0 0 a 0) = Some (Vec4 0 0 1 0)"
proof -
  have p: "sqrt (a * a) = a" "\<not> a * a \<le> 0" if "0 < a"
    using that by (simp_all add: real_sqrt_mult_self not_le)
  have n: "sqrt (a * a) = - a" "\<not> a * a \<le> 0" if "a < 0"
    using that by (simp_all add: real_sqrt_mult_self not_le zero_less_mult_iff)
  show "0 < a \<Longrightarrow> normalize4 (Vec4 a 0 0 0) = Some (Vec4 1 0 0 0)"
    using p by (simp add: normalize4_def inversesqrt_def dot4_def vec4_mul_def)
  show "a < 0 \<Longrightarrow> normalize4 (Vec4 a 0 0 0) = Some (Vec4 (- 1) 0 0 0)"
    using n by (simp add: normalize4_def inversesqrt_def dot4_def vec4_mul_def)
  show "0 < a \<Longrightarrow> normalize4 (Vec4 0 a 0 0) = Some (Vec4 0 1 0 0)"
    using p by (simp add: normalize4_def inversesqrt_def dot4_def vec4_mul_def)
  show "0 < a \<Longrightarrow> normalize4 (Vec4 0 0 a 0) = Some (Vec4 0 0 1 0)"
    using p by (simp add: normalize4_def inversesqrt_def dot4_def vec4_mul_def)
qed

lemma glm_inverse_rigid:
  "glm_inverse (Mat4 (Vec4 0 1 0 0) (Vec4 (- 1) 0 0 0) (Vec4 0 0 1 0) (Vec4 5 6 7 1)) =
     Some (Mat4 (Vec4 0 (- 1) 0 0) (Vec4 1 0 0 0) (Vec4 0 0 1 0) (Vec4 (- 6) 5 (- 7) 1))"
  "glm_inverse (Mat4 (Vec4 1 0 0 0) (Vec4 0 1 0 0) (Vec4 0 0 1 0) (Vec4 5 6 7 1)) =
     Some (Mat4 (Vec4 1 0 0 0) (Vec4 0 1 0 0) (Vec4 0 0 1 0) (Vec4 (- 5) (- 6) (- 7) 1))"
  "glm_inverse (Mat4 (Vec4 1 0 0 0) (Vec4 0 1 0 0) (Vec4 0 0 1 0) (Vec4 0 0 0 1)) =
     Some (Mat4 (Vec4 1 0 0 0) (Vec4 0 1 0 0) (Vec4 0 0 1 0) (Vec4 0 0 0 1))"
  by (simp_all add: glm_inverse_def float_div_def glm_determinant_def Coef_def mat4_smul_def
      vec4_mul_def)

lemma example_viewport:
  "CalculateViewport example_io = \<lparr> Min_rect = Vec2 0 0, Max_rect = Vec2 800 600 \<rparr>"
  by (simp add: CalculateViewport_def Let_def example_io_def vec2_add_def vec2_sub_def)

lemma example_RayCast:
  "RayCast example_io mat4_identity \<lparr> Min_rect = Vec2 0 0, Max_rect = Vec2 800 600 \<rparr> =
     Some \<lparr> Origin = Vec3 0 0 0, End = Vec3 0 0 (1 - kEpsilon), Direction = Vec3 0 0 1 \<rparr>"
proof -
  have k: "0 < 1 - kEpsilon" by (simp add: kEpsilon_def)
  show ?thesis
    by (simp add: RayCast_def Let_def example_io_def mat4_identity_def glm_inverse_rigid
        GetTL_def GetSize_def vec2_sub_def vec2_div_def float_div_def vec4_mul_def vec4_of2_def
        mat4_mul_vec_def vec4_add_def vec4_sub_def xyz_def normalize4_axis(4) [OF k])
qed

lemma example_Load:
  assumes "Camera g = Camera GImGuizmo" and "Style g = Style GImGuizmo"
    and "Viewport g = \<lparr> Min_rect = Vec2 0 0, Max_rect = Vec2 800 600 \<rparr>"
  shows "Mode gizmo = ImGuizmoMode_Local \<Longrightarrow>
     Load g example_model gizmo =
       Some (gizmo\<lparr> SourceModelMatrix := example_model,
                    ModelMatrix :=
                      Mat4 (Vec4 0 1 0 0) (Vec4 (- 1) 0 0 0) (Vec4 0 0 1 0) (Vec4 5 6 7 1),
                    ModelViewProjMatrix :=
                      Mat4 (Vec4 0 1 0 0) (Vec4 (- 1) 0 0 0) (Vec4 0 0 1 0) (Vec4 5 6 7 1),
                    ModelScaleOrigin := Vec3 2 2 2,
                    InversedModelMatrix :=
                      Mat4 (Vec4 0 (- 1) 0 0) (Vec4 1 0 0 0) (Vec4 0 0 1 0) (Vec4 (- 6) 5 (- 7) 1),
                    ScreenFactor := 1 / 10 \<rparr>)"
    and "Mode gizmo = ImGuizmoMode_World \<Longrightarrow>
     Load g example_model gizmo =
       Some (gizmo\<lparr> SourceModelMatrix := example_model,
                    ModelMatrix :=
                      Mat4 (Vec4 1 0 0 0) (Vec4 0 1 0 0) (Vec4 0 0 1 0) (Vec4 5 6 7 1),
                    ModelViewProjMatrix :=
                      Mat4 (Vec4 1 0 0 0) (Vec4 0 1 0 0) (Vec4 0 0 1 0) (Vec4 5 6 7 1),
                    ModelScaleOrigin := Vec3 2 2 2,
                    InversedModelMatrix :=
                      Mat4 (Vec4 1 0 0 0) (Vec4 0 1 0 0) (Vec4 0 0 1 0)
                        (Vec4 (- 5) (- 6) (- 7) 1),
                    ScreenFactor := 1 / 10 \<rparr>)"
proof -
  have n: "normalize_axes example_model =
      Some (Mat4 (Vec4 0 1 0 0) (Vec4 (- 1) 0 0 0) (Vec4 0 0 1 0) (Vec4 5 6 7 1))"
    by (simp add: normalize_axes_eq example_model_def normalize4_axis)
  have t: "col3 example_model = Vec4 5 6 7 1"
    by (simp add: example_model_def)
  have l: "axis_lengths example_model v = Vec3 2 2 2" for v
    by (simp add: axis_lengths_eq example_model_def length4_def dot4_def
        sqrt_square [of 2, simplified])
  have c: "ViewProjectionMatrix (Camera GImGuizmo) = mat4_identity"
    "Right (Camera GImGuizmo) = Vec3 1 0 0" "GizmoScale (Style GImGuizmo) = 1 / 10"
    by (simp_all add: GImGuizmo_def)
  have k: "kEpsilon < 1" by (simp add: kEpsilon_def)
  show "Mode gizmo = ImGuizmoMode_Local \<Longrightarrow>
     Load g example_model gizmo =
       Some (gizmo\<lparr> SourceModelMatrix := example_model,
                    ModelMatrix :=
                      Mat4 (Vec4 0 1 0 0) (Vec4 (- 1) 0 0 0) (Vec4 0 0 1 0) (Vec4 5 6 7 1),
                    ModelViewProjMatrix :=
                      Mat4 (Vec4 0 1 0 0) (Vec4 (- 1) 0 0 0) (Vec4 0 0 1 0) (Vec4 5 6 7 1),
                    ModelScaleOrigin := Vec3 2 2 2,
                    InversedModelMatrix :=
                      Mat4 (Vec4 0 (- 1) 0 0) (Vec4 1 0 0 0) (Vec4 0 0 1 0) (Vec4 (- 6) 5 (- 7) 1),
                    ScreenFactor := 1 / 10 \<rparr>)"
    by (simp add: Load_def Let_def assms n l c mat4_mul_def mat4_identity_def glm_inverse_rigid GetSegmentLengthClipSpace_def
        perspective_divide_def k GetAspectRatio_def GetWidth_def GetHeight_def float_div_def
        mat4_mul_vec_def vec4_add_def vec4_mul_def vec4_sub_def vec4_of_def xyz_def xy_def
        length2_def vec3_splat_def)
  show "Mode gizmo = ImGuizmoMode_World \<Longrightarrow>
     Load g example_model gizmo =
       Some (gizmo\<lparr> SourceModelMatrix := example_model,
                    ModelMatrix :=
                      Mat4 (Vec4 1 0 0 0) (Vec4 0 1 0 0) (Vec4 0 0 1 0) (Vec4 5 6 7 1),
                    ModelViewProjMatrix :=
                      Mat4 (Vec4 1 0 0 0) (Vec4 0 1 0 0) (Vec4 0 0 1 0) (Vec4 5 6 7 1),
                    ModelScaleOrigin := Vec3 2 2 2,
                    InversedModelMatrix :=
                      Mat4 (Vec4 1 0 0 0) (Vec4 0 1 0 0) (Vec4 0 0 1 0)
                        (Vec4 (- 5) (- 6) (- 7) 1),
                    ScreenFactor := 1 / 10 \<rparr>)"
    by (simp add: Load_def Let_def assms t l c mat4_mul_def mat4_identity_def glm_inverse_rigid
        glm_translate_def GetSegmentLengthClipSpace_def
        perspective_divide_def k GetAspectRatio_def GetWidth_def GetHeight_def float_div_def
        mat4_mul_vec_def vec4_add_def vec4_mul_def vec4_sub_def vec4_of_def xyz_def xy_def
        length2_def vec3_splat_def ImGuizmoMode_World_def ImGuizmoMode_Local_def)
qed



section \<open>The two frames of the rotation drag\<close>

text \<open>
  The frames of the drag of \<open>side_scene\<close>, evaluated through the public interface, for
  every setting \<open>c\<close> of the configuration flags. \<^verbatim>\<open>SetCamera\<close> gives \<open>side_scene\<close>; the
  first frame starts the drag and leaves \<open>example_between\<close>; the second frame
  continues it and writes the turned matrix into the caller's memory.
\<close>

lemma glm_inverse_side:
  "glm_inverse side_view =
     Some (Mat4 (Vec4 0 0 1 0) (Vec4 0 1 0 0) (Vec4 (- 1) 0 0 0) (Vec4 6 6 7 1))"
  by (simp add: side_view_def glm_inverse_def float_div_def glm_determinant_def Coef_def
      mat4_smul_def vec4_mul_def)

lemma SetCamera_side:
  "SetCamera side_view mat4_identity True GImGuizmo = Inr side_scene"
  by (simp add: side_scene_def SetCamera_def glm_inverse_side xyz_def)
     (simp add: side_view_def mat4_identity_def mat4_mul_def mat4_mul_vec_def vec4_add_def
        vec4_mul_def)

lemma side_RayCast:
  "RayCast press_io side_view \<lparr> Min_rect = Vec2 0 0, Max_rect = Vec2 800 600 \<rparr> =
     Some press_ray"
  "RayCast drag_io side_view \<lparr> Min_rect = Vec2 0 0, Max_rect = Vec2 800 600 \<rparr> =
     Some example_ray"
proof -
  have k: "kEpsilon - 1 < 0" by (simp add: kEpsilon_def)
  show "RayCast press_io side_view \<lparr> Min_rect = Vec2 0 0, Max_rect = Vec2 800 600 \<rparr> =
      Some press_ray"
    by (simp add: RayCast_def Let_def press_io_def example_io_def press_ray_def glm_inverse_side
      GetTL_def GetSize_def vec2_sub_def vec2_div_def float_div_def vec4_mul_def vec4_of2_def
      mat4_mul_vec_def vec4_add_def vec4_sub_def xyz_def normalize4_axis(2) [OF k])
  show "RayCast drag_io side_view \<lparr> Min_rect = Vec2 0 0, Max_rect = Vec2 800 600 \<rparr> =
      Some example_ray"
    by (simp add: RayCast_def Let_def drag_io_def example_io_def example_ray_def glm_inverse_side
      GetTL_def GetSize_def vec2_sub_def vec2_div_def float_div_def vec4_mul_def vec4_of2_def
      mat4_mul_vec_def vec4_add_def vec4_sub_def xyz_def normalize4_axis(2) [OF k])
qed

lemma side_viewport:
  "CalculateViewport press_io = \<lparr> Min_rect = Vec2 0 0, Max_rect = Vec2 800 600 \<rparr>"
  "CalculateViewport drag_io = \<lparr> Min_rect = Vec2 0 0, Max_rect = Vec2 800 600 \<rparr>"
  by (simp_all add: CalculateViewport_def Let_def press_io_def drag_io_def example_io_def
      vec2_add_def vec2_sub_def)

lemma side_Load:
  assumes "Mode gizmo = ImGuizmoMode_Local"
    and "Camera g = Camera side_scene" and "Style g = Style side_scene"
    and "Viewport g = \<lparr> Min_rect = Vec2 0 0, Max_rect = Vec2 800 600 \<rparr>"
  shows "Load g (glm_translate (Vec3 5 6 7)) gizmo =
     Some (gizmo\<lparr> SourceModelMatrix := glm_translate (Vec3 5 6 7),
                  ModelMatrix := glm_translate (Vec3 5 6 7),
                  ModelViewProjMatrix :=
                    Mat4 (Vec4 0 0 (- 1) 0) (Vec4 0 1 0 0) (Vec4 1 0 0 0) (Vec4 0 0 1 1),
                  ModelScaleOrigin := Vec3 1 1 1,
                  InversedModelMatrix := glm_translate (Vec3 (- 5) (- 6) (- 7)),
                  ScreenFactor := 1 / 10 \<rparr>)"
proof -
  have n: "normalize_axes (Mat4 (Vec4 1 0 0 0) (Vec4 0 1 0 0) (Vec4 0 0 1 0) (Vec4 5 6 7 1)) =
      Some (Mat4 (Vec4 1 0 0 0) (Vec4 0 1 0 0) (Vec4 0 0 1 0) (Vec4 5 6 7 1))"
    by (simp add: normalize_axes_eq normalize4_axis)
  have l: "axis_lengths (Mat4 (Vec4 1 0 0 0) (Vec4 0 1 0 0) (Vec4 0 0 1 0) (Vec4 5 6 7 1)) v =
      Vec3 1 1 1" for v
    by (simp add: axis_lengths_eq length4_def dot4_def)
  have mvp: "mat4_mul side_view (Mat4 (Vec4 1 0 0 0) (Vec4 0 1 0 0) (Vec4 0 0 1 0) (Vec4 5 6 7 1)) =
      Mat4 (Vec4 0 0 (- 1) 0) (Vec4 0 1 0 0) (Vec4 1 0 0 0) (Vec4 0 0 1 1)"
    by (simp add: side_view_def mat4_mul_def mat4_mul_vec_def vec4_add_def vec4_mul_def)
  have c: "ViewProjectionMatrix (Camera side_scene) = side_view"
    "Right (Camera side_scene) = Vec3 0 0 1" "GizmoScale (Style side_scene) = 1 / 10"
    by (simp_all add: side_scene_def GImGuizmo_def)
  have k: "kEpsilon < 1" by (simp add: kEpsilon_def)
  show ?thesis
    by (simp add: Load_def Let_def assms n glm_inverse_rigid l c mvp GetSegmentLengthClipSpace_def
        perspective_divide_def k GetAspectRatio_def GetWidth_def GetHeight_def float_div_def
        mat4_mul_vec_def vec4_add_def vec4_mul_def vec4_sub_def vec4_of_def xyz_def xy_def
        length2_def glm_translate_def vec3_splat_def)
qed

lemma side_facts:
  "ViewProjectionMatrix (Camera side_scene) = side_view"
  "IsOrtho (Camera side_scene)"
  "LockedModelMatrix side_scene = 0"
  by (simp_all add: side_scene_def GImGuizmo_def)

lemma press_Begin:
  "ImGuizmo_Begin press_io moved_memory ImGuizmoMode_Local 4096 ImGuizmoAxisFlags_X
     (SetConfigFlags c side_scene) = Inr (True, SetConfigFlags c press_context)"
proof -
  have f: "FindOrCreateGizmo
             (SetConfigFlags c side_scene
                \<lparr> LockedModelMatrix := 4096, Viewport := CalculateViewport press_io \<rparr>)
             (ucast (4096 :: addr)) = ImGuizmoWidget_new 4096"
    by (simp add: FindOrCreateGizmo_def SetConfigFlags_def side_scene_def GImGuizmo_def)
  have d: "MouseDown press_io 0" by (simp add: press_io_def)
  have i: "ActiveManipulationFlags (ImGuizmoWidget_new 4096) = 0"
    by (simp add: ImGuizmoWidget_new_def ImGuizmoAxisFlags_None_def)
  have m: "moved_memory 4096 = glm_translate (Vec3 5 6 7)" by (simp add: moved_memory_def)
  show ?thesis
    unfolding ImGuizmo_Begin_def Let_def f
    by (simp add: d i m side_Load side_facts side_viewport side_RayCast store_gizmo_def
        SetConfigFlags_def press_context_def press_widget_def
        example_between_def example_rotating_def side_scene_def GImGuizmo_def
        ImGuizmoWidget_new_def ImGuizmoMode_Local_def ImGuizmoOperation_None_def
        ImGuizmoAxisFlags_None_def vec3_splat_def)
qed

lemma press_current: "GetCurrentGizmo (SetConfigFlags c press_context) = Some press_widget"
  by (simp add: GetCurrentGizmo_def SetConfigFlags_def press_context_def example_between_def)

lemma ALL_nonzero: "ImGuizmoAxisFlags_ALL \<noteq> 0"
  by (simp add: ImGuizmoAxisFlags_ALL_def ImGuizmoAxisFlags_X_def
      ImGuizmoAxisFlags_Y_def ImGuizmoAxisFlags_Z_def)

lemma press_behavior:
  "GizmoBehavior press_io ImGuizmoOperation_Rotate ImGuizmoAxisFlags_ALL
     (SetConfigFlags c press_context, press_widget) =
   Inr (True, True, ImGuizmoAxisFlags_ALL,
        SetConfigFlags c press_context\<lparr> ActiveGizmo := Some 4096 \<rparr>,
        press_widget\<lparr> ActiveOperation := ImGuizmoOperation_Rotate,
                      ActiveManipulationFlags := ImGuizmoAxisFlags_ALL \<rparr>)"
proof -
  have a: "ActiveGizmo (SetConfigFlags c press_context) = None"
    "CurrentGizmo (SetConfigFlags c press_context) = Some 4096"
    by (simp_all add: SetConfigFlags_def press_context_def example_between_def)
  have o: "ActiveOperation press_widget = 0" "ImGuizmoOperation_Rotate \<noteq> 0"
    by (simp_all add: press_widget_def ImGuizmoOperation_Rotate_def ImGuizmoOperation_None_def)
  have f: "ActiveManipulationFlags press_widget = 0"
    by (simp add: press_widget_def ImGuizmoAxisFlags_None_def)
  have m: "MouseDown press_io 0" "MouseClicked press_io 0"
    by (simp_all add: press_io_def)
  show ?thesis by (simp add: GizmoBehavior_def Let_def a o f m ALL_nonzero)
qed

lemma ALL_not_single: "\<not> HasSingleAxis ImGuizmoAxisFlags_ALL"
  by (simp add: HasSingleAxis_def ImGuizmoAxisFlags_ALL_def ImGuizmoAxisFlags_X_def
      ImGuizmoAxisFlags_Y_def ImGuizmoAxisFlags_Z_def)

lemma normalize3_axis:
  "0 < a \<Longrightarrow> normalize3 (Vec3 a 0 0) = Some (Vec3 1 0 0)"
  "0 < a \<Longrightarrow> normalize3 (Vec3 0 a 0) = Some (Vec3 0 1 0)"
  "a < 0 \<Longrightarrow> normalize3 (Vec3 0 a 0) = Some (Vec3 0 (- 1) 0)"
  "a < 0 \<Longrightarrow> normalize3 (Vec3 0 0 a) = Some (Vec3 0 0 (- 1))"
proof -
  have p: "sqrt (a * a) = a" "\<not> a * a \<le> 0" if "0 < a"
    using that by (simp_all add: real_sqrt_mult_self not_le)
  have n: "sqrt (a * a) = - a" "\<not> a * a \<le> 0" if "a < 0"
    using that by (simp_all add: real_sqrt_mult_self not_le zero_less_mult_iff)
  show "0 < a \<Longrightarrow> normalize3 (Vec3 a 0 0) = Some (Vec3 1 0 0)"
    using p by (simp add: normalize3_def inversesqrt_def dot3_def vec3_mul_def)
  show "0 < a \<Longrightarrow> normalize3 (Vec3 0 a 0) = Some (Vec3 0 1 0)"
    using p by (simp add: normalize3_def inversesqrt_def dot3_def vec3_mul_def)
  show "a < 0 \<Longrightarrow> normalize3 (Vec3 0 a 0) = Some (Vec3 0 (- 1) 0)"
    using n by (simp add: normalize3_def inversesqrt_def dot3_def vec3_mul_def)
  show "a < 0 \<Longrightarrow> normalize3 (Vec3 0 0 a) = Some (Vec3 0 0 (- 1))"
    using n by (simp add: normalize3_def inversesqrt_def dot3_def vec3_mul_def)
qed

lemma side_rotation_plane:
  assumes "ActiveManipulationFlags gizmo = ImGuizmoAxisFlags_ALL"
    and "SourceModelMatrix gizmo = glm_translate (Vec3 5 6 7)"
    and "Forward (Camera g) = Vec3 (- 1) 0 0"
  shows "BuildRotationPlane g gizmo = Some (Vec4 1 0 0 5)"
  by (simp add: BuildRotationPlane_def Let_def assms ALL_not_single BuildPlane_def
      glm_translate_def xyz_def vec3_neg_def normalize3_axis dot3_def vec4_of_def)

lemma press_hit: "IntersectRayPlane press_ray (Vec4 1 0 0 5) = 1"
  by (simp add: IntersectRayPlane_def Let_def press_ray_def xyz_def dot3_def kEpsilon_def)

lemma press_direction:
  "normalize3
     (vec3_sub (vec3_add (Origin press_ray) (vec3_mul (Direction press_ray) 1))
        (xyz (col3 (glm_translate (Vec3 5 6 7))))) = Some (Vec3 0 1 0)"
  by (simp add: press_ray_def glm_translate_def xyz_def vec3_add_def vec3_sub_def vec3_mul_def
      normalize3_axis)

lemma ring_perpendicular:
  "normalize3 (cross (Vec3 0 1 0) (xyz (Vec4 1 0 0 5))) = Some (Vec3 0 0 (- 1))"
  by (simp add: cross_def xyz_def normalize3_axis)

lemma press_angle:
  assumes "Ray g = press_ray" and "TranslationPlane gizmo = Vec4 1 0 0 5"
    and "RotationVectorSource gizmo = Vec3 0 1 0"
    and "ModelMatrix gizmo = glm_translate (Vec3 5 6 7)"
  shows "CalculateAngleOnPlane g gizmo = Some 0"
  by (simp add: CalculateAngleOnPlane_def Let_def assms press_hit press_direction
      ring_perpendicular dot3_def glm_clamp_def)

lemma ring_axis:
  "normalize4
     (mat4_mul_vec (glm_translate (Vec3 (- 5) (- 6) (- 7))) (vec4_of (xyz (Vec4 1 0 0 5)) 0)) =
   Some (Vec4 1 0 0 0)"
  by (simp add: glm_translate_def mat4_mul_vec_def vec4_of_def xyz_def vec4_add_def vec4_mul_def
      normalize4_axis)

lemma glm_rotate_x:
  "glm_rotate angle (xyz (Vec4 1 0 0 0)) = Some (rotation_about angle (Vec3 1 0 0))"
  by (simp add: glm_rotate_def xyz_def normalize3_axis)

lemma press_BeginRotation:
  "BeginRotation press_io
     (SetConfigFlags c press_context\<lparr> ActiveGizmo := Some 4096 \<rparr>,
      press_widget\<lparr> ActiveOperation := ImGuizmoOperation_Rotate,
                    ActiveManipulationFlags := ImGuizmoAxisFlags_ALL \<rparr>) =
   Some (SetConfigFlags c press_context
           \<lparr> ActiveGizmo := Some 4096, DragOrigin := Vec2 400 256,
             BackupModelMatrix := glm_translate (Vec3 5 6 7) \<rparr>,
         example_rotating)"
  by (simp add: BeginRotation_def Let_def side_rotation_plane press_angle press_hit
      press_direction SetConfigFlags_def press_context_def press_widget_def example_between_def
      example_rotating_def side_scene_def GImGuizmo_def ImGuizmoWidget_new_def press_io_def
      example_io_def)

lemma press_ContinueRotation:
  assumes "Ray g = press_ray"
  shows "ContinueRotation None g example_rotating = Some example_rotating"
proof -
  have a: "CalculateAngleOnPlane g example_rotating = Some 0"
    by (rule press_angle) (simp_all add: assms example_rotating_def)
  have x: "normalize4
     (mat4_mul_vec (InversedModelMatrix example_rotating)
        (vec4_of (xyz (TranslationPlane example_rotating)) 0)) = Some (Vec4 1 0 0 0)"
    using ring_axis by (simp add: example_rotating_def)
  have o: "RotationAngleOrigin example_rotating = 0" by (simp add: example_rotating_def)
  show ?thesis
    by (simp add: ContinueRotation_def Let_def a x o glm_rotate_x) (simp add: example_rotating_def)
qed

lemma press_Rotate:
  "ImGuizmo_Rotate ring_hover press_io None (SetConfigFlags c press_context) =
     Inr (SetConfigFlags c example_between\<lparr> LockedModelMatrix := 4096 \<rparr>)"
proof -
  have r: "Ray (SetConfigFlags c press_context
                  \<lparr> ActiveGizmo := Some 4096, DragOrigin := Vec2 400 256,
                    BackupModelMatrix := glm_translate (Vec3 5 6 7) \<rparr>) = press_ray"
    by (simp add: SetConfigFlags_def press_context_def example_between_def)
  have s: "store_gizmo example_rotating
             (SetConfigFlags c press_context
                \<lparr> ActiveGizmo := Some 4096, DragOrigin := Vec2 400 256,
                  BackupModelMatrix := glm_translate (Vec3 5 6 7) \<rparr>) =
           SetConfigFlags c example_between\<lparr> LockedModelMatrix := 4096 \<rparr>"
    by (simp add: store_gizmo_def SetConfigFlags_def press_context_def example_between_def)
  show ?thesis
    unfolding ImGuizmo_Rotate_def press_current option.case ring_hover_def press_behavior
      sum.case prod.case if_True press_BeginRotation press_ContinueRotation [OF r] s ..
qed

lemma press_End:
  "ImGuizmo_End press_io (SetConfigFlags c example_between\<lparr> LockedModelMatrix := 4096 \<rparr>)
     moved_memory =
   Inr (False, SetConfigFlags c example_between, moved_memory)"
proof -
  have "\<not> MouseClicked press_io 1" by (simp add: press_io_def)
  then show ?thesis
    by (simp add: ImGuizmo_End_def Let_def GetCurrentGizmo_def cancel_requested_def
      store_gizmo_def SetConfigFlags_def example_between_def example_rotating_def side_scene_def
      GImGuizmo_def ImGuizmoWidget_new_def)
qed

lemma press_frame:
  "Begin_Rotate_End ring_hover press_io ImGuizmoMode_Local 4096 ImGuizmoAxisFlags_X None
     (SetConfigFlags c side_scene) moved_memory =
   Inr (False, SetConfigFlags c example_between, moved_memory)"
  by (simp add: Begin_Rotate_End_def press_Begin press_Rotate press_End)

text \<open>The second frame.\<close>

lemma example_current:
  "GetCurrentGizmo (SetConfigFlags c example_context) = Some example_rotating"
  by (simp add: GetCurrentGizmo_def SetConfigFlags_def example_context_def example_between_def)

lemma example_hit: "IntersectRayPlane example_ray (Vec4 1 0 0 5) = 1"
  by (simp add: IntersectRayPlane_def Let_def example_ray_def xyz_def dot3_def kEpsilon_def)

lemma example_direction:
  "normalize3
     (vec3_sub (vec3_add (Origin example_ray) (vec3_mul (Direction example_ray) 1))
        (xyz (col3 (glm_translate (Vec3 5 6 7))))) = Some (Vec3 0 (- 1) 0)"
  by (simp add: example_ray_def glm_translate_def xyz_def vec3_add_def vec3_sub_def vec3_mul_def
      normalize3_axis)

lemma example_angle:
  assumes "Ray g = example_ray" and "TranslationPlane gizmo = Vec4 1 0 0 5"
    and "RotationVectorSource gizmo = Vec3 0 1 0"
    and "xyz (col3 (ModelMatrix gizmo)) = Vec3 5 6 7"
  shows "CalculateAngleOnPlane g gizmo = Some (- pi)"
proof -
  have d: "normalize3
     (vec3_sub (vec3_add (Origin example_ray) (vec3_mul (Direction example_ray) 1)) (Vec3 5 6 7)) =
     Some (Vec3 0 (- 1) 0)"
    using example_direction by (simp add: glm_translate_def xyz_def)
  show ?thesis
    by (simp add: CalculateAngleOnPlane_def Let_def assms example_hit d ring_perpendicular
        dot3_def glm_clamp_def)
qed

lemma half_turn: "rotation_about (- pi) (Vec3 1 0 0) =
    Mat4 (Vec4 1 0 0 0) (Vec4 0 (- 1) 0 0) (Vec4 0 0 (- 1) 0) (Vec4 0 0 0 1)"
  by (simp add: rotation_about_def Let_def vec3_mul_def)

lemma example_turn:
  assumes "Ray g = example_ray"
  shows "ContinueRotation None g example_rotating = Some example_turned"
proof -
  have a: "CalculateAngleOnPlane g example_rotating = Some (- pi)"
    by (rule example_angle)
       (simp_all add: assms example_rotating_def glm_translate_def xyz_def)
  have x: "normalize4
     (mat4_mul_vec (InversedModelMatrix example_rotating)
        (vec4_of (xyz (TranslationPlane example_rotating)) 0)) = Some (Vec4 1 0 0 0)"
    using ring_axis by (simp add: example_rotating_def)
  have o: "RotationAngleOrigin example_rotating = 0" "Mode example_rotating = ImGuizmoMode_Local"
    by (simp_all add: example_rotating_def ImGuizmoWidget_new_def)
  have m: "mat4_mul (ModelMatrix example_rotating)
             (mat4_mul
                (Mat4 (Vec4 1 0 0 0) (Vec4 0 (- 1) 0 0) (Vec4 0 0 (- 1) 0) (Vec4 0 0 0 1))
                (glm_scale (ModelScaleOrigin example_rotating))) =
           Mat4 (Vec4 1 0 0 0) (Vec4 0 (- 1) 0 0) (Vec4 0 0 (- 1) 0) (Vec4 5 6 7 1)"
    by (simp add: example_rotating_def ImGuizmoWidget_new_def glm_translate_def glm_scale_def
        mat4_mul_def mat4_mul_vec_def vec4_add_def vec4_mul_def vec3_splat_def)
  show ?thesis
    by (simp add: ContinueRotation_def Let_def a x o glm_rotate_x half_turn m)
       (simp add: example_turned_def)
qed

lemma example_behavior:
  "GizmoBehavior drag_io ImGuizmoOperation_Rotate hover
     (SetConfigFlags c example_context, example_rotating) =
     Inr (False, True, ImGuizmoAxisFlags_ALL, SetConfigFlags c example_context, example_rotating)"
proof -
  have a: "ActiveGizmo (SetConfigFlags c example_context) =
      CurrentGizmo (SetConfigFlags c example_context)"
    by (simp add: SetConfigFlags_def example_context_def example_between_def)
  have o: "ActiveOperation example_rotating = ImGuizmoOperation_Rotate"
    "ImGuizmoOperation_Rotate \<noteq> 0"
    by (simp_all add: example_rotating_def ImGuizmoOperation_Rotate_def)
  have f: "ActiveManipulationFlags example_rotating = ImGuizmoAxisFlags_ALL"
    by (simp add: example_rotating_def)
  have m: "MouseDown drag_io 0" "\<not> MouseClicked drag_io 0"
    by (simp_all add: drag_io_def example_io_def)
  show ?thesis by (simp add: GizmoBehavior_def Let_def a o f m ALL_nonzero)
qed

lemma example_Rotate:
  "ImGuizmo_Rotate hover_query drag_io None (SetConfigFlags c example_context) =
     Inr (store_gizmo example_turned (SetConfigFlags c example_context))"
proof -
  have r: "Ray (SetConfigFlags c example_context) = example_ray"
    by (simp add: SetConfigFlags_def example_context_def)
  show ?thesis
    by (simp add: ImGuizmo_Rotate_def example_current example_behavior example_turn [OF r])
qed

lemma example_Rotate_current:
  "GetCurrentGizmo (store_gizmo example_turned (SetConfigFlags c example_context)) =
     Some example_turned"
  by (simp add: GetCurrentGizmo_def store_gizmo_def SetConfigFlags_def example_context_def
      example_between_def)

lemma drag_Begin:
  "ImGuizmo_Begin drag_io moved_memory ImGuizmoMode_Local 4096 ImGuizmoAxisFlags_X
     (SetConfigFlags c example_between) = Inr (True, SetConfigFlags c example_context)"
proof -
  have f: "FindOrCreateGizmo
             (SetConfigFlags c example_between
                \<lparr> LockedModelMatrix := 4096, Viewport := CalculateViewport drag_io \<rparr>)
             (ucast (4096 :: addr)) = example_rotating"
    by (simp add: FindOrCreateGizmo_def SetConfigFlags_def example_between_def)
  have d: "MouseDown drag_io 0" by (simp add: drag_io_def)
  have m: "moved_memory 4096 = glm_translate (Vec3 5 6 7)" by (simp add: moved_memory_def)
  have l: "LockedModelMatrix (SetConfigFlags c example_between) = 0"
    by (simp add: SetConfigFlags_def example_between_def side_scene_def GImGuizmo_def)
  show ?thesis
    unfolding ImGuizmo_Begin_def Let_def f
    by (simp add: d m l ALL_nonzero side_Load side_viewport side_RayCast store_gizmo_def
        SetConfigFlags_def example_context_def example_between_def example_rotating_def
        side_scene_def GImGuizmo_def ImGuizmoWidget_new_def ImGuizmoMode_Local_def vec3_splat_def)
qed

lemma drag_End:
  "ImGuizmo_End drag_io (store_gizmo example_turned (SetConfigFlags c example_context))
     moved_memory =
   Inr (True,
        (store_gizmo (example_turned\<lparr> Dirty := False \<rparr>) (SetConfigFlags c example_context))
          \<lparr> LockedModelMatrix := 0 \<rparr>,
        moved_memory
          (4096 := Mat4 (Vec4 1 0 0 0) (Vec4 0 (- 1) 0 0) (Vec4 0 0 (- 1) 0) (Vec4 5 6 7 1)))"
proof -
  have d: "Dirty example_turned"
    "ModelMatrix example_turned =
       Mat4 (Vec4 1 0 0 0) (Vec4 0 (- 1) 0 0) (Vec4 0 0 (- 1) 0) (Vec4 5 6 7 1)"
    by (simp_all add: example_turned_def)
  have c: "\<not> cancel_requested drag_io
             (store_gizmo example_turned (SetConfigFlags c example_context)) example_turned"
    by (simp add: cancel_requested_def drag_io_def example_io_def)
  have l: "LockedModelMatrix (store_gizmo example_turned (SetConfigFlags c example_context))
           = 4096"
    by (simp add: store_gizmo_def SetConfigFlags_def example_context_def example_between_def)
  have s: "store_gizmo w (store_gizmo v (SetConfigFlags c example_context)) =
           store_gizmo w (SetConfigFlags c example_context)" for w v
    by (simp add: store_gizmo_def SetConfigFlags_def example_context_def example_between_def)
  show ?thesis
    by (simp add: ImGuizmo_End_def Let_def l example_Rotate_current c d s)
qed

lemma drag_frame:
  "Begin_Rotate_End ring_hover drag_io ImGuizmoMode_Local 4096 ImGuizmoAxisFlags_X None
     (SetConfigFlags c example_between) moved_memory =
   Inr (True,
        (store_gizmo (example_turned\<lparr> Dirty := False \<rparr>) (SetConfigFlags c example_context))
          \<lparr> LockedModelMatrix := 0 \<rparr>,
        moved_memory
          (4096 := Mat4 (Vec4 1 0 0 0) (Vec4 0 (- 1) 0 0) (Vec4 0 0 (- 1) 0) (Vec4 5 6 7 1)))"
  by (simp add: Begin_Rotate_End_def drag_Begin example_Rotate drag_End)

lemma no_flags:
  "SetConfigFlags ImGuizmoConfigFlags_None side_scene = side_scene"
  "SetConfigFlags ImGuizmoConfigFlags_None example_between = example_between"
  "SetConfigFlags ImGuizmoConfigFlags_None example_context = example_context"
  by (simp_all add: SetConfigFlags_def example_context_def example_between_def side_scene_def
      GImGuizmo_def)

section \<open>Locked axes\<close>

text \<open>
  Claim C1 holds for translation and scale (\<open>ContinueTranslation_keeps_lock\<close> and
  \<open>ContinueScale_locked_axis\<close> below) and fails for rotation: \<open>ContinueRotation\<close>
  never reads \<open>LockedAxesFlags\<close>. The application sets the camera and then runs
  \<^verbatim>\<open>if (Begin(mode, m, ImGuizmoAxisFlags_X)) Rotate(); End();\<close> in every frame, with
  the x axis locked. In the first frame a click on the screen ring starts a drag;
  \<^verbatim>\<open>End\<close> returns false and the matrix is unchanged. The drag plane has the locked
  x axis as its normal. In the second frame the held mouse is half a turn further:
  \<^verbatim>\<open>Rotate\<close> continues the drag, the model is turned half a turn about the locked x
  axis (its y and z axes are reversed), and \<^verbatim>\<open>End\<close> returns true and writes the
  turned matrix into the caller's memory.
\<close>

theorem C1_Rotate_ignores_locked_axis:
  "SetCamera side_view mat4_identity True GImGuizmo = Inr side_scene \<and>
   moved_memory 4096 = Mat4 (Vec4 1 0 0 0) (Vec4 0 1 0 0) (Vec4 0 0 1 0) (Vec4 5 6 7 1) \<and>
   Begin_Rotate_End ring_hover press_io ImGuizmoMode_Local 4096 ImGuizmoAxisFlags_X None
     side_scene moved_memory =
     Inr (False, example_between, moved_memory) \<and>
   GetCurrentGizmo example_context = Some example_rotating \<and>
   LockedAxesFlags example_rotating AND ImGuizmoAxisFlags_X \<noteq> 0 \<and>
   xyz (TranslationPlane example_rotating) = Vec3 1 0 0 \<and>
   ModelMatrix example_rotating =
     Mat4 (Vec4 1 0 0 0) (Vec4 0 1 0 0) (Vec4 0 0 1 0) (Vec4 5 6 7 1) \<and>
   ImGuizmo_Begin drag_io moved_memory ImGuizmoMode_Local 4096 ImGuizmoAxisFlags_X
     example_between = Inr (True, example_context) \<and>
   ContinueRotation None example_context example_rotating = Some example_turned \<and>
   ImGuizmo_Rotate ring_hover drag_io None example_context =
     Inr (store_gizmo example_turned example_context) \<and>
   GetCurrentGizmo (store_gizmo example_turned example_context) = Some example_turned \<and>
   ModelMatrix example_turned =
     Mat4 (Vec4 1 0 0 0) (Vec4 0 (- 1) 0 0) (Vec4 0 0 (- 1) 0) (Vec4 5 6 7 1) \<and>
   Dirty example_turned \<and>
   Begin_Rotate_End ring_hover drag_io ImGuizmoMode_Local 4096 ImGuizmoAxisFlags_X None
     example_between moved_memory =
     Inr (True,
          (store_gizmo (example_turned\<lparr> Dirty := False \<rparr>) example_context)
            \<lparr> LockedModelMatrix := 0 \<rparr>,
          moved_memory
            (4096 := Mat4 (Vec4 1 0 0 0) (Vec4 0 (- 1) 0 0) (Vec4 0 0 (- 1) 0) (Vec4 5 6 7 1)))"
proof -
  have m: "moved_memory 4096 = Mat4 (Vec4 1 0 0 0) (Vec4 0 1 0 0) (Vec4 0 0 1 0) (Vec4 5 6 7 1)"
    by (simp add: moved_memory_def glm_translate_def)
  have w: "LockedAxesFlags example_rotating AND ImGuizmoAxisFlags_X \<noteq> 0"
    "xyz (TranslationPlane example_rotating) = Vec3 1 0 0"
    "ModelMatrix example_rotating =
       Mat4 (Vec4 1 0 0 0) (Vec4 0 1 0 0) (Vec4 0 0 1 0) (Vec4 5 6 7 1)"
    by (simp_all add: example_rotating_def glm_translate_def xyz_def ImGuizmoAxisFlags_X_def)
  have t: "ModelMatrix example_turned =
       Mat4 (Vec4 1 0 0 0) (Vec4 0 (- 1) 0 0) (Vec4 0 0 (- 1) 0) (Vec4 5 6 7 1)"
    "Dirty example_turned"
    by (simp_all add: example_turned_def)
  have r: "Ray example_context = example_ray" by (simp add: example_context_def)
  show ?thesis
    using m w t SetCamera_side
      press_frame [of ImGuizmoConfigFlags_None]
      example_current [of ImGuizmoConfigFlags_None]
      drag_Begin [of ImGuizmoConfigFlags_None]
      example_turn [OF r]
      example_Rotate [of ring_hover ImGuizmoConfigFlags_None]
      example_Rotate_current [of ImGuizmoConfigFlags_None]
      drag_frame [of ImGuizmoConfigFlags_None]
    by (simp add: no_flags)
qed

text \<open>The two sibling paths honour the lock.\<close>

lemma AxisToFlag_simps:
  "AxisToFlag 0 False = ImGuizmoAxisFlags_X"
  "AxisToFlag 1 False = ImGuizmoAxisFlags_Y"
  "AxisToFlag 2 False = ImGuizmoAxisFlags_Z"
  by (simp_all add: AxisToFlag_def ImGuizmoAxis_X_def ImGuizmoAxis_Y_def ImGuizmoAxis_Z_def)

lemma lock_translation_eq:
  "lock_translation locked d m =
     Mat4 (col0 m) (col1 m) (col2 m)
       (Vec4 (if locked AND AxisToFlag 0 False \<noteq> 0 then x3 d else x4 (col3 m))
             (if locked AND AxisToFlag 1 False \<noteq> 0 then y3 d else y4 (col3 m))
             (if locked AND AxisToFlag 2 False \<noteq> 0 then z3 d else z4 (col3 m))
             (w4 (col3 m)))"
  by (simp add: lock_translation_def)

lemma clamp_and_lock_scale_eq:
  "clamp_and_lock_scale locked v =
     Vec3 (if locked AND AxisToFlag 0 False \<noteq> 0 then 1 else max (x3 v) (1 / 1000))
          (if locked AND AxisToFlag 1 False \<noteq> 0 then 1 else max (y3 v) (1 / 1000))
          (if locked AND AxisToFlag 2 False \<noteq> 0 then 1 else max (z3 v) (1 / 1000))"
  by (simp add: clamp_and_lock_scale_def Let_def)

lemma ContinueTranslation_Some:
  assumes "ContinueTranslation snap g gizmo = Some moved"
  shows "\<exists>delta.
     moved =
       (if delta \<noteq> LastTranslationDelta gizmo
          then gizmo\<lparr> ModelMatrix :=
                         lock_translation (LockedAxesFlags gizmo) (DragTranslationOrigin gizmo)
                           (mat4_mul (glm_translate delta) (SourceModelMatrix gizmo)),
                      Dirty := True \<rparr>
        else gizmo)\<lparr> LastTranslationDelta := delta \<rparr>"
proof -
  from assms obtain delta where
    "(if delta \<noteq> LastTranslationDelta gizmo
          then gizmo\<lparr> ModelMatrix :=
                         lock_translation (LockedAxesFlags gizmo) (DragTranslationOrigin gizmo)
                           (mat4_mul (glm_translate delta) (SourceModelMatrix gizmo)),
                      Dirty := True \<rparr>
        else gizmo)\<lparr> LastTranslationDelta := delta \<rparr> = moved"
    by (simp add: ContinueTranslation_def Let_def bind_eq_Some_conv split del: if_split) blast
  then show ?thesis by blast
qed

lemma ContinueScale_Some:
  assumes "ContinueScale io snap g gizmo = Some scaled"
  shows "\<exists>v.
     scaled =
       (if LastScale gizmo \<noteq> clamp_and_lock_scale (LockedAxesFlags gizmo) v
          then gizmo\<lparr> ModelMatrix :=
                         mat4_mul (ModelMatrix gizmo)
                           (glm_scale
                              (vec3_cmul (clamp_and_lock_scale (LockedAxesFlags gizmo) v)
                                 (ScaleValueOrigin gizmo))),
                      Dirty := True \<rparr>
        else gizmo)
       \<lparr> Scale := clamp_and_lock_scale (LockedAxesFlags gizmo) v,
         LastScale := clamp_and_lock_scale (LockedAxesFlags gizmo) v \<rparr>"
proof -
  define body where
    "body v =
       (if LastScale gizmo \<noteq> clamp_and_lock_scale (LockedAxesFlags gizmo) v
          then gizmo\<lparr> ModelMatrix :=
                         mat4_mul (ModelMatrix gizmo)
                           (glm_scale
                              (vec3_cmul (clamp_and_lock_scale (LockedAxesFlags gizmo) v)
                                 (ScaleValueOrigin gizmo))),
                      Dirty := True \<rparr>
        else gizmo)
       \<lparr> Scale := clamp_and_lock_scale (LockedAxesFlags gizmo) v,
         LastScale := clamp_and_lock_scale (LockedAxesFlags gizmo) v \<rparr>" for v
  from assms obtain dragged where
    "body (case snap of None \<Rightarrow> dragged
           | Some steps \<Rightarrow> CalculateSnap3 dragged (\<lambda>axis_idx. steps 0)) = scaled"
    unfolding body_def
    by (simp add: ContinueScale_def Let_def bind_eq_Some_conv split del: if_split) blast
  then show ?thesis unfolding body_def by blast
qed

lemma ContinueTranslation_keeps_lock:
  assumes "ContinueTranslation snap g gizmo = Some moved"
    and "axis_idx \<in> {0, 1, 2}"
    and "LockedAxesFlags gizmo AND AxisToFlag axis_idx False \<noteq> 0"
    and "vec4_get (col3 (ModelMatrix gizmo)) axis_idx =
           vec3_get (DragTranslationOrigin gizmo) axis_idx"
  shows "vec4_get (col3 (ModelMatrix moved)) axis_idx =
           vec3_get (DragTranslationOrigin moved) axis_idx"
proof -
  from ContinueTranslation_Some [OF assms(1)] obtain delta where
    m: "moved =
       (if delta \<noteq> LastTranslationDelta gizmo
          then gizmo\<lparr> ModelMatrix :=
                         lock_translation (LockedAxesFlags gizmo) (DragTranslationOrigin gizmo)
                           (mat4_mul (glm_translate delta) (SourceModelMatrix gizmo)),
                      Dirty := True \<rparr>
        else gizmo)\<lparr> LastTranslationDelta := delta \<rparr>"
    by blast
  show ?thesis
  proof (cases "delta \<noteq> LastTranslationDelta gizmo")
    case True
    with m assms(2,3) show ?thesis by (auto simp add: lock_translation_eq)
  next
    case False
    with m assms(4) show ?thesis by simp
  qed
qed

lemma ContinueScale_locked_axis:
  assumes "ContinueScale io snap g gizmo = Some scaled"
    and "axis_idx \<in> {0, 1, 2}"
    and "LockedAxesFlags gizmo AND AxisToFlag axis_idx False \<noteq> 0"
  shows "vec3_get (Scale scaled) axis_idx = 1"
proof -
  from ContinueScale_Some [OF assms(1)] obtain v where
    "Scale scaled = clamp_and_lock_scale (LockedAxesFlags gizmo) v"
    by (auto split: if_splits)
  with assms(2,3) show ?thesis by (auto simp add: clamp_and_lock_scale_eq)
qed

section \<open>Rotation and scale leave the translation\<close>



















lemma example_shrink:
  assumes "x2 (DragOrigin g) = 400"
  shows "ContinueScale shrink_io None g example_rotating = Some example_shrunk"
proof -
  have f: "ActiveManipulationFlags example_rotating = ImGuizmoAxisFlags_ALL"
    "LockedAxesFlags example_rotating = ImGuizmoAxisFlags_X"
    "LastScale example_rotating = Vec3 1 1 1" "ScaleValueOrigin example_rotating = Vec3 1 1 1"
    "ModelMatrix example_rotating = glm_translate (Vec3 5 6 7)"
    by (simp_all add: example_rotating_def ImGuizmoWidget_new_def vec3_splat_def)
  have m: "x2 (MousePos shrink_io) = - 100"
    by (simp add: shrink_io_def)
  have c: "clamp_and_lock_scale ImGuizmoAxisFlags_X (Vec3 (1 / 1000) (1 / 1000) (1 / 1000)) =
      Vec3 1 (1 / 1000) (1 / 1000)"
    by (simp add: clamp_and_lock_scale_eq AxisToFlag_simps ImGuizmoAxisFlags_X_def
        ImGuizmoAxisFlags_Y_def ImGuizmoAxisFlags_Z_def)
  show ?thesis
    by (simp add: ContinueScale_def Let_def f m assms ALL_not_single vec3_splat_def c)
       (simp add: example_shrunk_def glm_translate_def glm_scale_def vec3_cmul_def mat4_mul_def
          mat4_mul_vec_def vec4_add_def vec4_mul_def)
qed





section \<open>Scaling and the length of the axis columns\<close>

lemma mat4_mul_glm_scale:
  "mat4_mul m (glm_scale v) =
     Mat4 (vec4_mul (col0 m) (x3 v)) (vec4_mul (col1 m) (y3 v)) (vec4_mul (col2 m) (z3 v)) (col3 m)"
  by (simp add: mat4_mul_def glm_scale_def mat4_mul_vec_def vec4_add_def vec4_mul_def)

lemma clamp_and_lock_scale_bounds:
  "1 / 1000 \<le> x3 (clamp_and_lock_scale locked v)"
  "1 / 1000 \<le> y3 (clamp_and_lock_scale locked v)"
  "1 / 1000 \<le> z3 (clamp_and_lock_scale locked v)"
  by (simp_all add: clamp_and_lock_scale_eq max_def)

lemma ContinueScale_Scale_bounds:
  assumes "ContinueScale io snap g gizmo = Some scaled"
  shows "1 / 1000 \<le> x3 (Scale scaled)" "1 / 1000 \<le> y3 (Scale scaled)"
    "1 / 1000 \<le> z3 (Scale scaled)"
proof -
  from ContinueScale_Some [OF assms] obtain v where
    v: "Scale scaled = clamp_and_lock_scale (LockedAxesFlags gizmo) v"
    by (auto split: if_splits)
  show "1 / 1000 \<le> x3 (Scale scaled)" "1 / 1000 \<le> y3 (Scale scaled)"
    "1 / 1000 \<le> z3 (Scale scaled)"
    unfolding v by (rule clamp_and_lock_scale_bounds)+
qed

lemma ContinueScale_ModelMatrix:
  assumes "ContinueScale io snap g gizmo = Some scaled"
  shows "ModelMatrix scaled = ModelMatrix gizmo \<or>
   ModelMatrix scaled =
     mat4_mul (ModelMatrix gizmo) (glm_scale (vec3_cmul (Scale scaled) (ScaleValueOrigin gizmo)))"
  using ContinueScale_Some [OF assms] by (auto split: if_splits)

text \<open>
  The step of a scale drag has no finite result exactly when the drag is on a
  single axis and the ratio it computes divides by zero.
\<close>

lemma ContinueScale_None:
  "ContinueScale io snap g gizmo = None \<longleftrightarrow>
     HasSingleAxis (ActiveManipulationFlags gizmo) \<and>
     dot3 (xyz (mat4_col (ModelMatrix gizmo) (GetAxisIdx (ActiveManipulationFlags gizmo) False)))
          (vec3_sub (TranslationPlaneOrigin gizmo) (xyz (mat4_col (ModelMatrix gizmo) 3))) = 0"
  by (simp add: ContinueScale_def Let_def float_div_def bind_eq_None_conv)

lemma BeginScale_ScaleValueOrigin:
  assumes "BeginScale io (g, gizmo) = Some (g', begun)"
  shows "ScaleValueOrigin begun =
     Vec3 (length4 (col0 (SourceModelMatrix gizmo))) (length4 (col1 (SourceModelMatrix gizmo)))
          (length4 (col2 (SourceModelMatrix gizmo)))"
  using assms by (auto simp add: BeginScale_def Let_def bind_eq_Some_conv axis_lengths_eq)

text \<open>
  Claim C10 as the code has it. After a step of a scale drag that has a finite
  result, each component of the widget's scale vector is at least \<open>1/1000\<close>, whatever
  the drag and the snap produced. The factor by which the step multiplies an axis
  column is that component times the length the caller's axis column had when the
  drag began, which \<^verbatim>\<open>BeginScale\<close> records in \<^verbatim>\<open>ScaleValueOrigin\<close>. On an axis where
  that length is positive the factor is positive, and an axis column of nonzero
  length keeps a nonzero length.
\<close>

theorem C10_ContinueScale_keeps_scale_positive:
  "(ContinueScale io snap g gizmo = Some scaled \<longrightarrow>
      1 / 1000 \<le> x3 (Scale scaled) \<and>
      1 / 1000 \<le> y3 (Scale scaled) \<and>
      1 / 1000 \<le> z3 (Scale scaled) \<and>
      (\<forall>axis_idx \<in> {0, 1, 2}.
         0 < vec3_get (ScaleValueOrigin gizmo) axis_idx \<longrightarrow>
         0 < vec3_get (vec3_cmul (Scale scaled) (ScaleValueOrigin gizmo)) axis_idx) \<and>
      (\<forall>axis_idx \<in> {0, 1, 2}.
         0 < vec3_get (ScaleValueOrigin gizmo) axis_idx \<and>
         0 < length4 (mat4_col (ModelMatrix gizmo) axis_idx) \<longrightarrow>
         0 < length4 (mat4_col (ModelMatrix scaled) axis_idx))) \<and>
   (BeginScale io (g0, gizmo0) = Some (g1, begun) \<longrightarrow>
      ScaleValueOrigin begun =
        Vec3 (length4 (col0 (SourceModelMatrix gizmo0)))
             (length4 (col1 (SourceModelMatrix gizmo0)))
             (length4 (col2 (SourceModelMatrix gizmo0)))) \<and>
   (\<not> HasSingleAxis (ActiveManipulationFlags gizmo) \<longrightarrow>
      ContinueScale io snap g gizmo \<noteq> None)"
proof (intro conjI impI)
  assume c: "ContinueScale io snap g gizmo = Some scaled"
  define s where "s = Scale scaled"
  have b: "1 / 1000 \<le> x3 s" "1 / 1000 \<le> y3 s" "1 / 1000 \<le> z3 s"
    unfolding s_def by (rule ContinueScale_Scale_bounds [OF c])+
  then have p: "0 < x3 s" "0 < y3 s" "0 < z3 s" by simp_all
  from b show "1 / 1000 \<le> x3 (Scale scaled)" "1 / 1000 \<le> y3 (Scale scaled)"
    "1 / 1000 \<le> z3 (Scale scaled)"
    by (simp_all add: s_def)
  show "\<forall>axis_idx \<in> {0, 1, 2}.
      0 < vec3_get (ScaleValueOrigin gizmo) axis_idx \<longrightarrow>
      0 < vec3_get (vec3_cmul (Scale scaled) (ScaleValueOrigin gizmo)) axis_idx"
    using p by (simp add: vec3_cmul_def s_def)
  show "\<forall>axis_idx \<in> {0, 1, 2}.
      0 < vec3_get (ScaleValueOrigin gizmo) axis_idx \<and>
      0 < length4 (mat4_col (ModelMatrix gizmo) axis_idx) \<longrightarrow>
      0 < length4 (mat4_col (ModelMatrix scaled) axis_idx)"
    using ContinueScale_ModelMatrix [OF c] p
    unfolding s_def [symmetric]
    by (auto simp add: mat4_mul_glm_scale length4_scaled vec3_cmul_def)
next
  assume "BeginScale io (g0, gizmo0) = Some (g1, begun)"
  then show "ScaleValueOrigin begun =
        Vec3 (length4 (col0 (SourceModelMatrix gizmo0)))
             (length4 (col1 (SourceModelMatrix gizmo0)))
             (length4 (col2 (SourceModelMatrix gizmo0)))"
    by (rule BeginScale_ScaleValueOrigin)
next
  assume "\<not> HasSingleAxis (ActiveManipulationFlags gizmo)"
  then show "ContinueScale io snap g gizmo \<noteq> None"
    by (simp add: ContinueScale_None)
qed

text \<open>
  The scale step of \<open>example_shrunk\<close>: the drag asks for \<open>-4\<close> and gets \<open>1/1000\<close> on y
  and z; the axis columns had length \<open>1\<close> when the drag began and stay nonzero.
\<close>

lemma example_BeginScale:
  "\<exists>g1 begun. BeginScale shrink_io (example_context, example_rotating) = Some (g1, begun)"
proof -
  have p: "BuildScalePlane example_rotating = Some (Vec4 0 0 1 7)"
    by (simp add: BuildScalePlane_def Let_def example_rotating_def ALL_not_single BuildPlane_def
        glm_translate_def xyz_def normalize3_def inversesqrt_def dot3_def vec3_mul_def
        vec4_of_def)
  have f: "float_div 1 (ScreenFactor example_rotating) = Some 10"
    by (simp add: float_div_def example_rotating_def)
  show ?thesis by (simp add: BeginScale_def Let_def p f)
qed

theorem C10_ContinueScale_keeps_scale_positive_witness:
  "ContinueScale shrink_io None example_context example_rotating = Some example_shrunk \<and>
   Scale example_shrunk = Vec3 1 (1 / 1000) (1 / 1000) \<and>
   0 < vec3_get (ScaleValueOrigin example_rotating) 0 \<and>
   0 < vec3_get (ScaleValueOrigin example_rotating) 1 \<and>
   0 < vec3_get (ScaleValueOrigin example_rotating) 2 \<and>
   0 < vec3_get (vec3_cmul (Scale example_shrunk) (ScaleValueOrigin example_rotating)) 0 \<and>
   0 < vec3_get (vec3_cmul (Scale example_shrunk) (ScaleValueOrigin example_rotating)) 1 \<and>
   0 < vec3_get (vec3_cmul (Scale example_shrunk) (ScaleValueOrigin example_rotating)) 2 \<and>
   0 < length4 (mat4_col (ModelMatrix example_rotating) 0) \<and>
   0 < length4 (mat4_col (ModelMatrix example_rotating) 1) \<and>
   0 < length4 (mat4_col (ModelMatrix example_rotating) 2) \<and>
   0 < length4 (mat4_col (ModelMatrix example_shrunk) 0) \<and>
   0 < length4 (mat4_col (ModelMatrix example_shrunk) 1) \<and>
   0 < length4 (mat4_col (ModelMatrix example_shrunk) 2) \<and>
   \<not> HasSingleAxis (ActiveManipulationFlags example_rotating) \<and>
   ContinueScale shrink_io None example_context example_rotating \<noteq> None \<and>
   (\<exists>g1 begun.
      BeginScale shrink_io (example_context, example_rotating) = Some (g1, begun) \<and>
      SourceModelMatrix example_rotating =
        Mat4 (Vec4 1 0 0 0) (Vec4 0 1 0 0) (Vec4 0 0 1 0) (Vec4 5 6 7 1) \<and>
      ScaleValueOrigin begun = Vec3 1 1 1)"
proof -
  have d: "x2 (DragOrigin example_context) = 400"
    by (simp add: example_context_def example_between_def)
  have o: "ScaleValueOrigin example_rotating = Vec3 1 1 1"
    "\<not> HasSingleAxis (ActiveManipulationFlags example_rotating)"
    "SourceModelMatrix example_rotating =
        Mat4 (Vec4 1 0 0 0) (Vec4 0 1 0 0) (Vec4 0 0 1 0) (Vec4 5 6 7 1)"
    by (simp_all add: example_rotating_def ImGuizmoWidget_new_def vec3_splat_def ALL_not_single
        glm_translate_def)
  have m: "0 < length4 (col0 (ModelMatrix example_rotating))"
    "0 < length4 (col1 (ModelMatrix example_rotating))"
    "0 < length4 (col2 (ModelMatrix example_rotating))"
    by (simp_all add: example_rotating_def glm_translate_def length4_def dot4_def)
  have s: "Scale example_shrunk = Vec3 1 (1 / 1000) (1 / 1000)"
    by (simp add: example_shrunk_def)
  have l: "length4 (Vec4 1 0 0 0) = 1" "length4 (Vec4 0 1 0 0) = 1" "length4 (Vec4 0 0 1 0) = 1"
    by (simp_all add: length4_def dot4_def)
  obtain g1 begun where
    b: "BeginScale shrink_io (example_context, example_rotating) = Some (g1, begun)"
    using example_BeginScale by blast
  have "ScaleValueOrigin begun = Vec3 1 1 1"
    using C10_ContinueScale_keeps_scale_positive
        [of shrink_io None example_context example_rotating example_shrunk
            example_context example_rotating g1 begun] b o l
    by simp
  with b have e: "\<exists>g1 begun.
      BeginScale shrink_io (example_context, example_rotating) = Some (g1, begun) \<and>
      SourceModelMatrix example_rotating =
        Mat4 (Vec4 1 0 0 0) (Vec4 0 1 0 0) (Vec4 0 0 1 0) (Vec4 5 6 7 1) \<and>
      ScaleValueOrigin begun = Vec3 1 1 1"
    using o by blast
  show ?thesis
    using C10_ContinueScale_keeps_scale_positive
        [of shrink_io None example_context example_rotating example_shrunk
            example_context example_rotating g1 begun]
      example_shrink [OF d] o m s e
    by (simp add: vec3_cmul_def)
qed

lemma flat_Load:
  assumes "Mode gizmo = ImGuizmoMode_World"
    and "Camera g = Camera side_scene" and "Style g = Style side_scene"
    and "Viewport g = \<lparr> Min_rect = Vec2 0 0, Max_rect = Vec2 800 600 \<rparr>"
  shows "Load g flat_model gizmo =
     Some (gizmo\<lparr> SourceModelMatrix := flat_model,
                  ModelMatrix := glm_translate (Vec3 5 6 7),
                  ModelViewProjMatrix :=
                    Mat4 (Vec4 0 0 (- 1) 0) (Vec4 0 1 0 0) (Vec4 1 0 0 0) (Vec4 0 0 1 1),
                  ModelScaleOrigin := Vec3 1 0 1,
                  InversedModelMatrix := glm_translate (Vec3 (- 5) (- 6) (- 7)),
                  ScreenFactor := 1 / 10 \<rparr>)"
proof -
  have t: "col3 flat_model = Vec4 5 6 7 1"
    by (simp add: flat_model_def)
  have l: "axis_lengths flat_model v = Vec3 1 0 1" for v
    by (simp add: axis_lengths_eq flat_model_def length4_def dot4_def)
  have mvp: "mat4_mul side_view (Mat4 (Vec4 1 0 0 0) (Vec4 0 1 0 0) (Vec4 0 0 1 0) (Vec4 5 6 7 1)) =
      Mat4 (Vec4 0 0 (- 1) 0) (Vec4 0 1 0 0) (Vec4 1 0 0 0) (Vec4 0 0 1 1)"
    by (simp add: side_view_def mat4_mul_def mat4_mul_vec_def vec4_add_def vec4_mul_def)
  have c: "ViewProjectionMatrix (Camera side_scene) = side_view"
    "Right (Camera side_scene) = Vec3 0 0 1" "GizmoScale (Style side_scene) = 1 / 10"
    by (simp_all add: side_scene_def GImGuizmo_def)
  have k: "kEpsilon < 1" by (simp add: kEpsilon_def)
  have m: "Mode gizmo \<noteq> ImGuizmoMode_Local"
    by (simp add: assms ImGuizmoMode_World_def ImGuizmoMode_Local_def)
  show ?thesis
    by (simp add: Load_def Let_def assms(2-) m t glm_inverse_rigid l c mvp
        GetSegmentLengthClipSpace_def perspective_divide_def k GetAspectRatio_def GetWidth_def
        GetHeight_def float_div_def mat4_mul_vec_def vec4_add_def vec4_mul_def vec4_sub_def
        vec4_of_def xyz_def xy_def length2_def glm_translate_def vec3_splat_def)
qed

text \<open>
  The claim as the specification states it fails for a caller's matrix with a zero
  axis column, in World mode. \<open>flat_scaling\<close> is a widget as \<open>Load\<close> leaves it for such
  a matrix: its model matrix is a translation, with a y column of length \<open>1\<close>; the
  length recorded for the y axis is \<open>0\<close>. The step scales by \<open>2\<close>, the factor it
  applies on y is \<open>2 * 0\<close>, and the y column of the model matrix becomes zero.
\<close>

theorem C10_flat_model_collapses_counterexample:
  "Load example_context flat_model flat_scaling = Some flat_scaling \<and>
   ModelMatrix flat_scaling = glm_translate (xyz (col3 (SourceModelMatrix flat_scaling))) \<and>
   ScaleValueOrigin flat_scaling = axis_lengths (SourceModelMatrix flat_scaling) (Vec3 1 1 1) \<and>
   length4 (col1 (ModelMatrix flat_scaling)) = 1 \<and>
   map_option Scale (ContinueScale grow_io None example_context flat_scaling) =
     Some (Vec3 2 2 2) \<and>
   vec3_get (vec3_cmul (Vec3 2 2 2) (ScaleValueOrigin flat_scaling)) 1 = 0 \<and>
   map_option (col1 \<circ> ModelMatrix) (ContinueScale grow_io None example_context flat_scaling) =
     Some (Vec4 0 0 0 0) \<and>
   length4 (Vec4 0 0 0 0) = 0"
proof -
  have f: "ActiveManipulationFlags flat_scaling = ImGuizmoAxisFlags_ALL"
    "LockedAxesFlags flat_scaling = 0"
    "LastScale flat_scaling = Vec3 1 1 1" "ScaleValueOrigin flat_scaling = Vec3 1 0 1"
    "ModelMatrix flat_scaling =
       Mat4 (Vec4 1 0 0 0) (Vec4 0 1 0 0) (Vec4 0 0 1 0) (Vec4 5 6 7 1)"
    "SourceModelMatrix flat_scaling = flat_model"
    by (simp_all add: flat_scaling_def example_rotating_def ImGuizmoWidget_new_def vec3_splat_def
        glm_translate_def ImGuizmoAxisFlags_None_def)
  have m: "x2 (MousePos grow_io) = 500" "x2 (DragOrigin example_context) = 400"
    by (simp_all add: grow_io_def example_context_def example_between_def)
  have c: "clamp_and_lock_scale 0 (Vec3 2 2 2) = Vec3 2 2 2"
    by (simp add: clamp_and_lock_scale_eq)
  have s: "ContinueScale grow_io None example_context flat_scaling =
      Some (flat_scaling
              \<lparr> ModelMatrix :=
                  Mat4 (Vec4 2 0 0 0) (Vec4 0 0 0 0) (Vec4 0 0 2 0) (Vec4 5 6 7 1),
                Dirty := True, Scale := Vec3 2 2 2, LastScale := Vec3 2 2 2 \<rparr>)"
    by (simp add: ContinueScale_def Let_def f m ALL_not_single vec3_splat_def c
        mat4_mul_glm_scale vec3_cmul_def vec4_mul_def)
  have l: "axis_lengths flat_model (Vec3 1 1 1) = Vec3 1 0 1"
    by (simp add: axis_lengths_eq flat_model_def length4_def dot4_def)
  have t: "glm_translate (xyz (col3 flat_model)) =
       Mat4 (Vec4 1 0 0 0) (Vec4 0 1 0 0) (Vec4 0 0 1 0) (Vec4 5 6 7 1)"
    by (simp add: flat_model_def glm_translate_def xyz_def)
  have ld: "Load example_context flat_model flat_scaling = Some flat_scaling"
    by (subst flat_Load)
       (simp_all add: flat_scaling_def example_rotating_def example_context_def
          example_between_def ImGuizmoWidget_new_def vec3_splat_def)
  show ?thesis
    by (simp add: ld s f l t vec3_cmul_def length4_def dot4_def)
qed

section \<open>End\<close>

lemma GetCurrentGizmo_store:
  "GetCurrentGizmo g = Some gizmo \<Longrightarrow>
     GetCurrentGizmo ((store_gizmo gizmo' g)\<lparr> LockedModelMatrix := a \<rparr>) = Some gizmo'"
  by (auto simp add: GetCurrentGizmo_def store_gizmo_def split: option.splits)

lemma End_result:
  assumes "LockedModelMatrix g \<noteq> 0" and "GetCurrentGizmo g = Some gizmo"
  shows "\<exists>gizmo'.
     ImGuizmo_End io g mem =
       Inr (Dirty gizmo \<or> cancel_requested io g gizmo,
            (store_gizmo gizmo' g)\<lparr> LockedModelMatrix := 0 \<rparr>,
            if cancel_requested io g gizmo
              then mem(LockedModelMatrix g := BackupModelMatrix g)
            else if Dirty gizmo then mem(LockedModelMatrix g := ModelMatrix gizmo)
            else mem) \<and>
     \<not> Dirty gizmo' \<and>
     ActiveManipulationFlags gizmo' =
       (if cancel_requested io g gizmo then 0 else ActiveManipulationFlags gizmo) \<and>
     ModelMatrix gizmo' =
       (if cancel_requested io g gizmo then BackupModelMatrix g else ModelMatrix gizmo)"
proof (cases "cancel_requested io g gizmo")
  case True
  show ?thesis
    by (rule exI [of _ "gizmo\<lparr> ModelMatrix := BackupModelMatrix g,
                              ActiveManipulationFlags := ImGuizmoAxisFlags_None,
                              Dirty := False \<rparr>"])
      (use assms True in \<open>simp add: ImGuizmo_End_def Let_def ImGuizmoAxisFlags_None_def\<close>)
next
  case False
  show ?thesis
  proof (cases "Dirty gizmo")
    case True
    show ?thesis
      by (rule exI [of _ "gizmo\<lparr> Dirty := False \<rparr>"])
        (use assms True \<open>\<not> cancel_requested io g gizmo\<close> in
          \<open>simp add: ImGuizmo_End_def Let_def\<close>)
  next
    case False
    show ?thesis
      by (rule exI [of _ gizmo])
        (use assms False \<open>\<not> cancel_requested io g gizmo\<close> in
          \<open>simp add: ImGuizmo_End_def Let_def\<close>)
  qed
qed

text \<open>
  Claim C2, as the code has it. Inside \<^verbatim>\<open>Begin\<close> and \<^verbatim>\<open>End\<close>, \<open>ImGuizmo_End\<close> returns
  true exactly when the widget is dirty or a cancel is requested. On a cancel it
  writes the backup matrix into the caller's matrix; otherwise, when the widget is
  dirty, it writes the widget's model matrix; otherwise it returns false and leaves
  the caller's memory as it is. In every case the widget is clean afterwards, so at
  the next \<^verbatim>\<open>End\<close> it is dirty only when a manipulation marked it after this one
  (\<open>Begin_current\<close>: \<open>ImGuizmo_Begin\<close> keeps the flag).
\<close>

theorem C2_End_updates_when_dirty_or_cancelled:
  assumes "LockedModelMatrix g \<noteq> 0" and "GetCurrentGizmo g = Some gizmo"
  shows "\<exists>g' gizmo'.
     ImGuizmo_End io g mem =
       Inr (Dirty gizmo \<or> cancel_requested io g gizmo, g',
            if cancel_requested io g gizmo
              then mem(LockedModelMatrix g := BackupModelMatrix g)
            else if Dirty gizmo then mem(LockedModelMatrix g := ModelMatrix gizmo)
            else mem) \<and>
     LockedModelMatrix g' = 0 \<and>
     GetCurrentGizmo g' = Some gizmo' \<and> \<not> Dirty gizmo'"
proof -
  obtain w where e: "ImGuizmo_End io g mem =
       Inr (Dirty gizmo \<or> cancel_requested io g gizmo,
            (store_gizmo w g)\<lparr> LockedModelMatrix := 0 \<rparr>,
            if cancel_requested io g gizmo
              then mem(LockedModelMatrix g := BackupModelMatrix g)
            else if Dirty gizmo then mem(LockedModelMatrix g := ModelMatrix gizmo)
            else mem)"
    and d: "\<not> Dirty w"
    using End_result [OF assms, of io mem] by blast
  let ?g = "(store_gizmo w g)\<lparr> LockedModelMatrix := 0 \<rparr>"
  have "GetCurrentGizmo ?g = Some w" by (rule GetCurrentGizmo_store [OF assms(2)])
  moreover have "LockedModelMatrix ?g = 0" by simp
  ultimately show ?thesis using e d by blast
qed

lemma cancel_current:
  "GetCurrentGizmo (cancel_context\<lparr> LockedModelMatrix := 4096 \<rparr>) = Some cancel_widget"
  by (simp add: GetCurrentGizmo_def cancel_context_def)

lemma cancel_is_requested:
  "cancel_requested cancel_io (cancel_context\<lparr> LockedModelMatrix := 4096 \<rparr>) cancel_widget"
  by (simp add: cancel_requested_def cancel_context_def cancel_io_def cancel_widget_def
      ImGuizmoConfigFlags_HasReversing_def ImGuizmoAxisFlags_X_def)

text \<open>
  A clean widget with no cancel, for which \<^verbatim>\<open>End\<close> returns false and writes nothing,
  and the cancelled drag, for which it returns true and writes the backup.
\<close>

theorem C2_End_updates_when_dirty_or_cancelled_witness:
  "LockedModelMatrix example_context \<noteq> 0 \<and>
   GetCurrentGizmo example_context = Some example_rotating \<and>
   \<not> Dirty example_rotating \<and> \<not> cancel_requested example_io example_context example_rotating \<and>
   (\<exists>g' gizmo'.
      ImGuizmo_End example_io example_context example_memory = Inr (False, g', example_memory) \<and>
      LockedModelMatrix g' = 0 \<and> GetCurrentGizmo g' = Some gizmo' \<and> \<not> Dirty gizmo') \<and>
   LockedModelMatrix (cancel_context\<lparr> LockedModelMatrix := 4096 \<rparr>) \<noteq> 0 \<and>
   GetCurrentGizmo (cancel_context\<lparr> LockedModelMatrix := 4096 \<rparr>) = Some cancel_widget \<and>
   \<not> Dirty cancel_widget \<and>
   cancel_requested cancel_io (cancel_context\<lparr> LockedModelMatrix := 4096 \<rparr>) cancel_widget \<and>
   (\<exists>g' gizmo'.
      ImGuizmo_End cancel_io (cancel_context\<lparr> LockedModelMatrix := 4096 \<rparr>) example_memory =
        Inr (True, g', example_memory(4096 := mat4_identity)) \<and>
      LockedModelMatrix g' = 0 \<and> GetCurrentGizmo g' = Some gizmo' \<and> \<not> Dirty gizmo')"
proof -
  have l: "LockedModelMatrix example_context \<noteq> 0" by (simp add: example_context_def)
  have d: "\<not> Dirty example_rotating" by (simp add: example_rotating_def ImGuizmoWidget_new_def)
  have c: "\<not> cancel_requested example_io example_context example_rotating"
    by (simp add: cancel_requested_def example_io_def)
  have l2: "LockedModelMatrix (cancel_context\<lparr> LockedModelMatrix := 4096 \<rparr>) \<noteq> 0" by simp
  have d2: "\<not> Dirty cancel_widget" by (simp add: cancel_widget_def ImGuizmoWidget_new_def)
  have b: "BackupModelMatrix (cancel_context\<lparr> LockedModelMatrix := 4096 \<rparr>) = mat4_identity"
    by (simp add: cancel_context_def GImGuizmo_def)
  have e: "GetCurrentGizmo example_context = Some example_rotating"
    by (simp add: GetCurrentGizmo_def example_context_def example_between_def)
  show ?thesis
    using C2_End_updates_when_dirty_or_cancelled
        [OF l e, of example_io example_memory]
      C2_End_updates_when_dirty_or_cancelled
        [OF l2 cancel_current, of cancel_io example_memory]
      l e d c d2 cancel_current cancel_is_requested b
    by simp
qed


section \<open>Cancelling a drag\<close>























section \<open>Manipulate\<close>

text \<open>
  Claim C8. For every mode, operation, matrix pointer and snap, in every context
  and memory, \<open>ImGuizmo_Manipulate\<close> yields what the explicit sequence
  \<open>Begin_manipulation_End\<close> yields: the same returned flag, the same context and the
  same memory, or the same failure.
\<close>

theorem C8_Manipulate_is_Begin_manipulation_End:
  "ImGuizmo_Manipulate hq io mode operation model_matrix snap g mem =
     Begin_manipulation_End hq io mode operation model_matrix snap g mem"
  by (auto simp add: ImGuizmo_Manipulate_def Begin_manipulation_End_def manipulation_named_def
      split: sum.splits bool.splits option.splits)


section \<open>A cancel with no manipulation\<close>

lemma cancel_found: "FindOrCreateGizmo cancel_context 4096 = cancel_widget"
  by (simp add: FindOrCreateGizmo_def cancel_context_def)

lemma cancel_Begin:
  "\<exists>visible g1.
     ImGuizmo_Begin cancel_io example_memory ImGuizmoMode_World 4096 ImGuizmoAxisFlags_None
       cancel_context = Inr (visible, g1)"
proof -
  have f: "FindOrCreateGizmo
             (cancel_context\<lparr> LockedModelMatrix := 4096, Viewport := CalculateViewport cancel_io \<rparr>)
             (ucast (4096 :: addr)) = cancel_widget"
    by (simp add: FindOrCreateGizmo_def cancel_context_def)
  have c: "ViewProjectionMatrix (Camera cancel_context) = mat4_identity"
    "LockedModelMatrix cancel_context = 0" "Camera cancel_context = Camera GImGuizmo"
    "Style cancel_context = Style GImGuizmo"
    by (simp_all add: cancel_context_def GImGuizmo_def)
  have m: "example_memory 4096 = example_model" by (simp add: example_memory_def)
  have v: "CalculateViewport cancel_io = \<lparr> Min_rect = Vec2 0 0, Max_rect = Vec2 800 600 \<rparr>"
    using example_viewport by (simp add: CalculateViewport_def cancel_io_def)
  have "RayCast cancel_io p r = RayCast example_io p r" for p r
    by (simp add: RayCast_def cancel_io_def)
  then have r: "RayCast cancel_io mat4_identity
      \<lparr> Min_rect = Vec2 0 0, Max_rect = Vec2 800 600 \<rparr> =
      Some \<lparr> Origin = Vec3 0 0 0, End = Vec3 0 0 (1 - kEpsilon), Direction = Vec3 0 0 1 \<rparr>"
    by (simp add: example_RayCast)
  have d: "MouseDown cancel_io 0" "ActiveManipulationFlags cancel_widget \<noteq> 0"
    "ViewProjectionMatrix (Camera GImGuizmo) = mat4_identity"
    by (simp_all add: cancel_io_def cancel_widget_def ImGuizmoAxisFlags_X_def GImGuizmo_def)
  show ?thesis
    unfolding ImGuizmo_Begin_def Let_def f
    by (simp add: c d m v r example_Load)
qed

text \<open>
  The claim C2 as written fails where a drag is cancelled. \<open>ImGuizmo_Manipulate\<close>
  with \<^verbatim>\<open>ImGuizmoOperation_None\<close> is \<^verbatim>\<open>Begin\<close> followed at once by \<^verbatim>\<open>End\<close>: no
  manipulation runs in between and the widget is clean. In \<open>cancel_context\<close> it
  still returns true, and the caller's matrix, which was \<open>example_model\<close>, is now
  the backup.
\<close>

theorem C2_cancel_without_manipulation_counterexample:
  "\<not> Dirty cancel_widget \<and>
   \<not> isl (ImGuizmo_Manipulate no_hover cancel_io ImGuizmoMode_World ImGuizmoOperation_None 4096
            None cancel_context example_memory) \<and>
   fst (projr (ImGuizmo_Manipulate no_hover cancel_io ImGuizmoMode_World ImGuizmoOperation_None
                 4096 None cancel_context example_memory)) \<and>
   snd (snd (projr (ImGuizmo_Manipulate no_hover cancel_io ImGuizmoMode_World
                      ImGuizmoOperation_None 4096 None cancel_context example_memory))) 4096 =
     mat4_identity \<and>
   example_memory 4096 \<noteq> mat4_identity"
proof -
  have a: "(4096 :: addr) \<noteq> 0" by simp
  have l: "LockedModelMatrix cancel_context = 0" by (simp add: cancel_context_def GImGuizmo_def)
  obtain visible g1 where
    b: "ImGuizmo_Begin cancel_io example_memory ImGuizmoMode_World 4096 ImGuizmoAxisFlags_None
          cancel_context = Inr (visible, g1)"
    using cancel_Begin by blast
  obtain w1 where cur: "GetCurrentGizmo g1 = Some w1"
    and d: "Dirty w1 = Dirty (FindOrCreateGizmo cancel_context (ucast (4096 :: addr)))"
    and f: "ActiveManipulationFlags w1 =
             (if MouseDown cancel_io 0
                then ActiveManipulationFlags (FindOrCreateGizmo cancel_context (ucast (4096 :: addr)))
              else 0)"
    using Begin_current [OF b] by blast
  have ctx: "LockedModelMatrix g1 = 4096" "BackupModelMatrix g1 = BackupModelMatrix cancel_context"
    "ConfigFlags g1 = ConfigFlags cancel_context"
    using Begin_context [OF b] by simp_all
  have clean: "\<not> Dirty cancel_widget" by (simp add: cancel_widget_def ImGuizmoWidget_new_def)
  have d1: "\<not> Dirty w1" using d clean by (simp add: cancel_found)
  have f1: "ActiveManipulationFlags w1 \<noteq> 0"
    using f by (simp add: cancel_found cancel_io_def cancel_widget_def ImGuizmoAxisFlags_X_def)
  have c: "cancel_requested cancel_io g1 w1"
    using f1 ctx(3)
    by (simp add: cancel_requested_def cancel_io_def cancel_context_def
        ImGuizmoConfigFlags_HasReversing_def)
  have l1: "LockedModelMatrix g1 \<noteq> 0" using ctx(1) by simp
  have bk: "BackupModelMatrix g1 = mat4_identity"
    using ctx(2) by (simp add: cancel_context_def GImGuizmo_def)
  obtain w2 where e: "ImGuizmo_End cancel_io g1 example_memory =
      Inr (True, (store_gizmo w2 g1)\<lparr> LockedModelMatrix := 0 \<rparr>,
           example_memory(4096 := mat4_identity))"
    using End_result [OF l1 cur, of cancel_io example_memory] c ctx(1) bk by auto
  have m: "ImGuizmo_Manipulate no_hover cancel_io ImGuizmoMode_World ImGuizmoOperation_None 4096
            None cancel_context example_memory =
      Inr (True, (store_gizmo w2 g1)\<lparr> LockedModelMatrix := 0 \<rparr>,
           example_memory(4096 := mat4_identity))"
    using b e
    by (simp add: ImGuizmo_Manipulate_def ImGuizmoOperation_None_def
        ImGuizmoOperation_Translate_def ImGuizmoOperation_Rotate_def ImGuizmoOperation_Scale_def)
  have ne: "example_memory 4096 \<noteq> mat4_identity"
    by (simp add: example_memory_def example_model_def mat4_identity_def)
  show ?thesis unfolding m using clean ne by simp
qed


end
